theory Spec2Isabelle
  imports Complex_Main "HOL-Library.Sublist"
begin

section \<open>Values shared by the components\<close>

text \<open>
  Python exceptions are values. Only subclasses of \<open>Exception\<close> occur: they are what the
  handlers \<open>except Exception\<close> of the source catch. The string is the message that
  \<open>str(e)\<close> renders.
\<close>

datatype exn =
    ValueError string
  | TypeError string
  | AttributeError string
  | IndexError string
  | KeyError string
  | SyntaxError string
  | TimeoutExpired string
  | FileNotFoundError string
  | OSError string
  | OtherException string

fun str_exn :: "exn \<Rightarrow> string" where
  "str_exn (ValueError m) = m"
| "str_exn (TypeError m) = m"
| "str_exn (AttributeError m) = m"
| "str_exn (IndexError m) = m"
| "str_exn (KeyError m) = m"
| "str_exn (SyntaxError m) = m"
| "str_exn (TimeoutExpired m) = m"
| "str_exn (FileNotFoundError m) = m"
| "str_exn (OSError m) = m"
| "str_exn (OtherException m) = m"

text \<open>
  A scalar read from the specification document. Python floats are modelled by the
  reals: the metrics are percentages and the weights are the decimal constants of the
  source.
\<close>

datatype yaml = YNum real | YStr string | YNull

text \<open>
  Strings are ASCII strings. \<open>strip\<close> removes the characters for which \<open>str.isspace\<close>
  holds from both ends; \<open>lower\<close> maps the capital letters; \<open>str_nat\<close> is the decimal
  rendering of a loop index inside an f-string.
\<close>

definition newline :: string where
  "newline = [CHR 0x0A]"

definition isspace :: "char \<Rightarrow> bool" where
  "isspace c =
     (c \<in> set [CHR 0x09, CHR 0x0A, CHR 0x0B, CHR 0x0C, CHR 0x0D,
                CHR 0x1C, CHR 0x1D, CHR 0x1E, CHR 0x1F, CHR 0x20])"

definition strip :: "string \<Rightarrow> string" where
  "strip s = rev (dropWhile isspace (rev (dropWhile isspace s)))"

definition lower_char :: "char \<Rightarrow> char" where
  "lower_char c =
     (case map_of (zip ''ABCDEFGHIJKLMNOPQRSTUVWXYZ'' ''abcdefghijklmnopqrstuvwxyz'') c of
        Some l \<Rightarrow> l
      | None \<Rightarrow> c)"

definition lower :: "string \<Rightarrow> string" where
  "lower s = map lower_char s"

fun str_nat :: "nat \<Rightarrow> string" where
  "str_nat n =
     (if n < 10 then [''0123456789'' ! n]
      else str_nat (n div 10) @ [''0123456789'' ! (n mod 10)])"

declare str_nat.simps [simp del]

section \<open>The library the code calls\<close>

subsection \<open>Syntax trees of the \<open>ast\<close> module\<close>

text \<open>
  The node classes the fault injector tells apart, with the fields it reads or writes.
  Every other class is \<open>Other\<close> with its class name and its child nodes in field order.
  Operator objects are kept as values of their own types and are not child nodes here:
  the injector never selects them.
\<close>

datatype operator = Add | Sub | Mult | Div | Mod | OtherOperator string

datatype cmpop = Eq | NotEq | Lt | LtE | Gt | GtE | OtherCmpop string

datatype boolop = And | Or

datatype unaryop = NotOp | OtherUnaryop string

datatype const_value = ConstInt int | ConstOther string

datatype node =
    BinOp node operator node
  | Compare node "cmpop list" "node list"
  | BoolOp boolop "node list"
  | UnaryOp unaryop node
  | Constant const_value
  | IfStmt node "node list" "node list"
  | While node "node list" "node list"
  | Return "node option"
  | Other string "node list"

text \<open>\<open>ast.iter_child_nodes\<close>: the child nodes in the order of the class's fields.\<close>

fun iter_child_nodes :: "node \<Rightarrow> node list" where
  "iter_child_nodes (BinOp l opr r) = [l, r]"
| "iter_child_nodes (Compare l ops comparators) = l # comparators"
| "iter_child_nodes (BoolOp opr vs) = vs"
| "iter_child_nodes (UnaryOp opr operand) = [operand]"
| "iter_child_nodes (Constant c) = []"
| "iter_child_nodes (IfStmt t body orelse) = t # body @ orelse"
| "iter_child_nodes (While t body orelse) = t # body @ orelse"
| "iter_child_nodes (Return v) = (case v of None \<Rightarrow> [] | Some x \<Rightarrow> [x])"
| "iter_child_nodes (Other k cs) = cs"

text \<open>
  The injector compares node objects by identity (\<open>node in locations_to_fault\<close>; the
  classes define no equality). A node object of the parsed tree is identified by its
  position: the list of child indices leading to it from the root.
\<close>

type_synonym ident = "nat list"

definition child_objects :: "ident \<Rightarrow> node \<Rightarrow> (ident \<times> node) list" where
  "child_objects p n =
     map (\<lambda>(i, c). (p @ [i], c)) (enumerate 0 (iter_child_nodes n))"

definition weight :: "(ident \<times> node) list \<Rightarrow> nat" where
  "weight todo = sum_list (map (\<lambda>(p, n). Suc (2 * size n)) todo)"

lemma weight_append: "weight (xs @ ys) = weight xs + weight ys"
  by (simp add: weight_def)

lemma sum_weight_le: "(\<Sum>c\<leftarrow>cs. Suc (2 * size (c::node))) \<le> 2 * size_list size cs"
  by (induction cs) auto

lemma weight_enumerate:
  "weight (map (\<lambda>(i, c). (p @ [i], c)) (enumerate k cs)) = (\<Sum>c\<leftarrow>cs. Suc (2 * size c))"
  by (induction cs arbitrary: k) (simp_all add: weight_def)

lemma weight_children: "weight (child_objects p n) \<le> 2 * size n"
proof -
  have "weight (child_objects p n) = (\<Sum>c\<leftarrow>iter_child_nodes n. Suc (2 * size c))"
    unfolding child_objects_def by (rule weight_enumerate)
  also have "\<dots> \<le> 2 * size n"
  proof (cases n)
    case (Compare l ops cs)
    then show ?thesis using sum_weight_le [of cs] by simp
  next
    case (BoolOp opr vs)
    then show ?thesis using sum_weight_le [of vs] by simp
  next
    case (IfStmt t body orelse)
    then show ?thesis using sum_weight_le [of body] sum_weight_le [of orelse] by simp
  next
    case (While t body orelse)
    then show ?thesis using sum_weight_le [of body] sum_weight_le [of orelse] by simp
  next
    case (Other k cs)
    then show ?thesis using sum_weight_le [of cs] by simp
  qed (simp_all split: option.splits)
  finally show ?thesis .
qed

text \<open>
  \<open>ast.walk\<close>: breadth first over a queue. The children of a node are put on the queue
  when the node is taken off it, before the node is yielded to the loop body; the loop
  body changes only fields of the yielded node, so the walk yields the objects of the
  parsed tree, each with the fields it was parsed with.
\<close>

function walk :: "(ident \<times> node) list \<Rightarrow> (ident \<times> node) list" where
  "walk [] = []"
| "walk ((p, n) # todo) = (p, n) # walk (todo @ child_objects p n)"
  by pat_completeness auto
termination
proof (relation "measure weight")
  show "wf (measure weight)" by simp
next
  fix p n todo
  have "weight (todo @ child_objects p n) \<le> weight todo + 2 * size n"
    using weight_children [of p n] by (simp add: weight_append)
  then show "(todo @ child_objects p n, (p, n) # todo) \<in> measure weight"
    by (simp add: weight_def)
qed

subsection \<open>The parser, the printer and the \<open>random\<close> module\<close>

text \<open>
  \<open>ast.parse\<close>, \<open>ast.unparse\<close>, the generator behind \<open>random\<close> and the built-in \<open>hash\<close> are
  not code of the repository: they are parameters. \<open>'g\<close> is the state of the module-wide
  generator. \<open>random.seed(a)\<close> sets that state from \<open>a\<close> alone. \<open>random_sample g n k\<close> gives
  the positions that \<open>random.sample\<close> picks in a population of size \<open>n\<close>, and
  \<open>random_randbelow g n\<close> the index that \<open>random.choice\<close> picks in a sequence of length \<open>n\<close>;
  both return the next state.
\<close>

record 'g python_lib =
  ast_parse :: "string \<Rightarrow> exn + node"
  ast_unparse :: "node \<Rightarrow> exn + string"
  random_seed :: "int \<Rightarrow> 'g"
  random_sample :: "'g \<Rightarrow> nat \<Rightarrow> nat \<Rightarrow> nat list \<times> 'g"
  random_randbelow :: "'g \<Rightarrow> nat \<Rightarrow> nat \<times> 'g"
  str_hash :: "string \<Rightarrow> int"

text \<open>
  \<open>random.sample(population, k)\<close> raises \<open>ValueError\<close> unless \<open>0 \<le> k \<le> len(population)\<close>;
  \<open>random.choice(seq)\<close> raises \<open>IndexError\<close> on an empty sequence. A position outside the
  sequence is an \<open>IndexError\<close>, as indexing is in Python.
\<close>

definition sample :: "'g python_lib \<Rightarrow> 'a list \<Rightarrow> int \<Rightarrow> 'g \<Rightarrow> (exn + 'a list) \<times> 'g" where
  "sample L population k g =
     (if k < 0 \<or> int (length population) < k
      then (Inl (ValueError ''Sample larger than population or is negative''), g)
      else
        (case random_sample L g (length population) (nat k) of
           (positions, g') \<Rightarrow>
             if list_all (\<lambda>i. i < length population) positions
             then (Inr (map (nth population) positions), g')
             else (Inl (IndexError ''list index out of range''), g')))"

definition choice :: "'g python_lib \<Rightarrow> 'a list \<Rightarrow> 'g \<Rightarrow> (exn + 'a) \<times> 'g" where
  "choice L seq g =
     (if seq = [] then (Inl (IndexError ''Cannot choose from an empty sequence''), g)
      else
        (case random_randbelow L g (length seq) of
           (i, g') \<Rightarrow>
             if i < length seq then (Inr (seq ! i), g')
             else (Inl (IndexError ''list index out of range''), g')))"

section \<open>utils/fault\_injector.py\<close>

record injector =
  target_fault_count :: int
  faults_injected :: int
  possible_fault_locations :: "ident list"

definition FaultInjector :: "int \<Rightarrow> injector" where
  "FaultInjector n =
     \<lparr> target_fault_count = n, faults_injected = 0, possible_fault_locations = [] \<rparr>"

text \<open>
  \<open>FaultInjector.visit\<close>: records a node of one of the six classes, then visits the child
  nodes through \<open>generic_visit\<close>, depth first in field order. It returns every node as it
  is, so the tree is not changed. The result lists the recorded objects in that order.
\<close>

primrec visit :: "ident \<Rightarrow> node \<Rightarrow> ident list"
  and visit_list :: "ident \<Rightarrow> nat \<Rightarrow> node list \<Rightarrow> ident list"
  and visit_option :: "ident \<Rightarrow> node option \<Rightarrow> ident list"
where
  "visit p (BinOp l opr r) = p # visit (p @ [0]) l @ visit (p @ [1]) r"
| "visit p (Compare l ops comparators) = p # visit (p @ [0]) l @ visit_list p 1 comparators"
| "visit p (BoolOp opr vs) = p # visit_list p 0 vs"
| "visit p (UnaryOp opr operand) = visit (p @ [0]) operand"
| "visit p (Constant c) = []"
| "visit p (IfStmt t body orelse) =
     p # visit (p @ [0]) t @ visit_list p 1 body @ visit_list p (1 + length body) orelse"
| "visit p (While t body orelse) =
     p # visit (p @ [0]) t @ visit_list p 1 body @ visit_list p (1 + length body) orelse"
| "visit p (Return v) = p # visit_option p v"
| "visit p (Other k cs) = visit_list p 0 cs"
| "visit_list p i [] = []"
| "visit_list p i (c # cs) = visit (p @ [i]) c @ visit_list p (Suc i) cs"
| "visit_option p None = []"
| "visit_option p (Some x) = visit (p @ [0]) x"

text \<open>
  The mutation methods write one field of the node they are given. What they write is
  recorded as a \<open>change\<close> of that object; \<open>mutated\<close> below reads the tree with the changes
  applied.
\<close>

datatype change =
    SetOperator operator
  | SetFirstCmpop cmpop
  | SetBoolop boolop
  | InvertTest
  | ReturnZero
  | Unchanged

definition mutate_binop :: "'g python_lib \<Rightarrow> operator \<Rightarrow> 'g \<Rightarrow> (exn + change) \<times> 'g" where
  "mutate_binop L current_op g =
     (let operators = [Add, Sub, Mult, Div, Mod] in
        case choice L (filter (\<lambda>opr. opr \<noteq> current_op) operators) g of
          (Inl e, g') \<Rightarrow> (Inl e, g')
        | (Inr new_op, g') \<Rightarrow> (Inr (SetOperator new_op), g'))"

definition mutate_compare :: "'g python_lib \<Rightarrow> cmpop list \<Rightarrow> 'g \<Rightarrow> (exn + change) \<times> 'g" where
  "mutate_compare L ops g =
     (let comparators = [Eq, NotEq, Lt, LtE, Gt, GtE] in
        case ops of
          [] \<Rightarrow> (Inr Unchanged, g)
        | current_comp # rest \<Rightarrow>
            (case choice L (filter (\<lambda>comp. comp \<noteq> current_comp) comparators) g of
               (Inl e, g') \<Rightarrow> (Inl e, g')
             | (Inr new_comp, g') \<Rightarrow> (Inr (SetFirstCmpop new_comp), g')))"

definition mutate_boolop :: "'g python_lib \<Rightarrow> boolop \<Rightarrow> 'g \<Rightarrow> (exn + change) \<times> 'g" where
  "mutate_boolop L current_bool_op g =
     (let bool_ops = [And, Or] in
        case choice L (filter (\<lambda>opr. opr \<noteq> current_bool_op) bool_ops) g of
          (Inl e, g') \<Rightarrow> (Inl e, g')
        | (Inr new_bool_op, g') \<Rightarrow> (Inr (SetBoolop new_bool_op), g'))"

text \<open>\<open>_mutate_if_condition\<close> on the test of the statement: remove a \<open>not\<close>, or add one.\<close>

definition mutate_if_condition :: "node \<Rightarrow> node" where
  "mutate_if_condition t =
     (case t of
        UnaryOp NotOp operand \<Rightarrow> operand
      | _ \<Rightarrow> UnaryOp NotOp t)"

definition mutate_return_value :: "node option \<Rightarrow> change" where
  "mutate_return_value v = (case v of None \<Rightarrow> Unchanged | Some x \<Rightarrow> ReturnZero)"

text \<open>
  The \<open>isinstance\<close> chain in the loop of \<open>_inject_faults_in_tree\<close>. A \<open>While\<close> node can be
  selected, but the chain has no branch for it: nothing is written.
\<close>

fun mutate_node :: "'g python_lib \<Rightarrow> node \<Rightarrow> 'g \<Rightarrow> (exn + change) \<times> 'g" where
  "mutate_node L (BinOp l opr r) g = mutate_binop L opr g"
| "mutate_node L (Compare l ops comparators) g = mutate_compare L ops g"
| "mutate_node L (BoolOp opr vs) g = mutate_boolop L opr g"
| "mutate_node L (IfStmt t body orelse) g = (Inr InvertTest, g)"
| "mutate_node L (Return v) g = (Inr (mutate_return_value v), g)"
| "mutate_node L (While t body orelse) g = (Inr Unchanged, g)"
| "mutate_node L (UnaryOp opr operand) g = (Inr Unchanged, g)"
| "mutate_node L (Constant c) g = (Inr Unchanged, g)"
| "mutate_node L (Other k cs) g = (Inr Unchanged, g)"

text \<open>
  \<open>_inject_faults_in_tree\<close>: the loop over \<open>ast.walk(tree)\<close>. The state is the changes
  written so far, \<open>faults_injected\<close> and the generator. The first component of the result
  is the exception that left the loop, if one did.
\<close>

fun inject_faults_in_tree ::
  "'g python_lib \<Rightarrow> int \<Rightarrow> ident list \<Rightarrow> (ident \<times> node) list \<Rightarrow>
     (ident \<times> change) list \<times> int \<times> 'g \<Rightarrow> exn option \<times> (ident \<times> change) list \<times> int \<times> 'g"
where
  "inject_faults_in_tree L target locations_to_fault [] st = (None, st)"
| "inject_faults_in_tree L target locations_to_fault ((p, n) # rest) (changes, injected, g) =
     (if p \<in> set locations_to_fault \<and> injected < target then
        (case mutate_node L n g of
           (Inl e, g') \<Rightarrow> (Some e, changes, injected, g')
         | (Inr c, g') \<Rightarrow>
             (let changes = changes @ [(p, c)];
                  injected = injected + 1
              in if injected = target
                 then (None, changes, injected, g')
                 else inject_faults_in_tree L target locations_to_fault rest
                        (changes, injected, g')))
      else inject_faults_in_tree L target locations_to_fault rest (changes, injected, g))"

text \<open>
  The tree after the loop: every object with the change written to it. A change touches
  the operator, the first comparison operator, the test or the returned value of its own
  node; the children are objects of the parsed tree and carry their own changes.
\<close>

primrec mutated :: "(ident \<rightharpoonup> change) \<Rightarrow> ident \<Rightarrow> node \<Rightarrow> node"
  and mutated_list :: "(ident \<rightharpoonup> change) \<Rightarrow> ident \<Rightarrow> nat \<Rightarrow> node list \<Rightarrow> node list"
  and mutated_option :: "(ident \<rightharpoonup> change) \<Rightarrow> ident \<Rightarrow> node option \<Rightarrow> node option"
where
  "mutated f p (BinOp l opr r) =
     BinOp (mutated f (p @ [0]) l)
       (case f p of Some (SetOperator new_op) \<Rightarrow> new_op | _ \<Rightarrow> opr)
       (mutated f (p @ [1]) r)"
| "mutated f p (Compare l ops comparators) =
     Compare (mutated f (p @ [0]) l)
       (case f p of Some (SetFirstCmpop new_comp) \<Rightarrow> new_comp # tl ops | _ \<Rightarrow> ops)
       (mutated_list f p 1 comparators)"
| "mutated f p (BoolOp opr vs) =
     BoolOp (case f p of Some (SetBoolop new_bool_op) \<Rightarrow> new_bool_op | _ \<Rightarrow> opr)
       (mutated_list f p 0 vs)"
| "mutated f p (UnaryOp opr operand) = UnaryOp opr (mutated f (p @ [0]) operand)"
| "mutated f p (Constant c) = Constant c"
| "mutated f p (IfStmt t body orelse) =
     IfStmt
       (case f p of
          Some InvertTest \<Rightarrow> mutate_if_condition (mutated f (p @ [0]) t)
        | _ \<Rightarrow> mutated f (p @ [0]) t)
       (mutated_list f p 1 body)
       (mutated_list f p (1 + length body) orelse)"
| "mutated f p (While t body orelse) =
     While (mutated f (p @ [0]) t) (mutated_list f p 1 body)
       (mutated_list f p (1 + length body) orelse)"
| "mutated f p (Return v) =
     Return (case f p of
               Some ReturnZero \<Rightarrow> Some (Constant (ConstInt 0))
             | _ \<Rightarrow> mutated_option f p v)"
| "mutated f p (Other k cs) = Other k (mutated_list f p 0 cs)"
| "mutated_list f p i [] = []"
| "mutated_list f p i (c # cs) = mutated f (p @ [i]) c # mutated_list f p (Suc i) cs"
| "mutated_option f p None = None"
| "mutated_option f p (Some x) = Some (mutated f (p @ [0]) x)"

text \<open>
  \<open>FaultInjector.inject_faults\<close>. The generator is seeded with the constant 0 before the
  locations are sampled.
\<close>

definition inject_faults ::
  "'g python_lib \<Rightarrow> injector \<Rightarrow> node \<Rightarrow> 'g \<Rightarrow> (exn + node) \<times> injector \<times> 'g" where
  "inject_faults L self tree g =
     (let self = self\<lparr>possible_fault_locations := possible_fault_locations self @ visit [] tree\<rparr> in
        if possible_fault_locations self = [] then (Inr tree, self, g)
        else
          (let g = random_seed L 0 in
             case sample L (possible_fault_locations self)
                    (min (target_fault_count self) (int (length (possible_fault_locations self)))) g of
               (Inl e, g) \<Rightarrow> (Inl e, self, g)
             | (Inr locations_to_fault, g) \<Rightarrow>
                 (let self = self\<lparr>faults_injected := 0\<rparr> in
                    case inject_faults_in_tree L (target_fault_count self) locations_to_fault
                           (walk [([], tree)]) ([], faults_injected self, g) of
                      (raised, changes, n, g) \<Rightarrow>
                        (let self = self\<lparr>faults_injected := n\<rparr>;
                             tree = mutated (map_of changes) [] tree
                         in case raised of
                              Some e \<Rightarrow> (Inl e, self, g)
                            | None \<Rightarrow> (Inr tree, self, g)))))"

text \<open>
  \<open>inject_simple_fault\<close>: the body of its \<open>try\<close>, then the two handlers, which both return
  the code they were given. The function itself therefore returns a string on every
  path; the generator state is returned with it.
\<close>

definition try_inject_simple_fault ::
  "'g python_lib \<Rightarrow> string \<Rightarrow> int \<Rightarrow> 'g \<Rightarrow> (exn + string) \<times> 'g" where
  "try_inject_simple_fault L code num_faults g =
     (case ast_parse L code of
        Inl e \<Rightarrow> (Inl e, g)
      | Inr tree \<Rightarrow>
          (case inject_faults L (FaultInjector num_faults) tree g of
             (Inl e, injector, g) \<Rightarrow> (Inl e, g)
           | (Inr mutated_tree, injector, g) \<Rightarrow> (ast_unparse L mutated_tree, g)))"

definition inject_simple_fault :: "'g python_lib \<Rightarrow> string \<Rightarrow> int \<Rightarrow> 'g \<Rightarrow> string \<times> 'g" where
  "inject_simple_fault L code num_faults g =
     (case try_inject_simple_fault L code num_faults g of
        (Inr mutated_code, g) \<Rightarrow> (mutated_code, g)
      | (Inl (SyntaxError m), g) \<Rightarrow> (code, g)
      | (Inl e, g) \<Rightarrow> (code, g))"

section \<open>environment/testing\_env.py\<close>

text \<open>
  A path is the list of its components, so \<open>os.path.join\<close> appends and
  \<open>os.path.dirname\<close> drops the last component. The file system is the set of directories
  that exist: \<open>os.makedirs\<close> creates a directory with its ancestors, \<open>shutil.rmtree\<close> removes
  a directory with everything below it. Both are taken to succeed.
\<close>

type_synonym path = "string list"

type_synonym filesystem = "path set"

definition makedirs :: "path \<Rightarrow> filesystem \<Rightarrow> filesystem" where
  "makedirs p fs = fs \<union> (set (prefixes p) - {[]})"

definition rmtree :: "path \<Rightarrow> filesystem \<Rightarrow> filesystem" where
  "rmtree p fs = Set.filter (\<lambda>q. \<not> prefix p q) fs"

definition path_exists :: "path \<Rightarrow> filesystem \<Rightarrow> bool" where
  "path_exists p fs = (p \<in> fs)"

text \<open>
  What the world outside answers to one sandbox: the name \<open>uuid.uuid4()\<close> draws, the
  exception (if any) that the k-th file write of \<open>setup_environment\<close> raises, what
  \<open>subprocess.run\<close> does for the test command and for the three coverage commands, and the
  report file \<open>coverage.json\<close> as \<open>json.load\<close> reads it (\<open>None\<close>: the file does not exist).
\<close>

datatype proc_result = Completed int string string | Raised exn

text \<open>
  The report: not decodable as JSON, of a shape that makes the reading code raise, or a
  document with the optional line counts \<open>totals.covered_lines\<close> and
  \<open>totals.missing_lines\<close> (counts are natural numbers) and its rendering by \<open>json.dumps\<close>.
\<close>

datatype coverage_json =
    Undecodable
  | Unexpected exn
  | CoverageData "nat option" "nat option" string

record sandbox_io =
  uuid4 :: string
  write_errors :: "nat \<Rightarrow> exn option"
  test_proc :: proc_result
  erase_proc :: proc_result
  coverage_proc :: proc_result
  report_proc :: proc_result
  report_file :: "coverage_json option"

record testing_environment =
  base_dir :: path
  run_dir :: path
  source_file_path :: "path option"
  test_file_path :: "path option"

definition TestingEnvironment ::
  "path \<Rightarrow> string \<Rightarrow> filesystem \<Rightarrow> testing_environment \<times> filesystem" where
  "TestingEnvironment base uuid fs =
     (let self = \<lparr> base_dir = base, run_dir = base @ [uuid],
                    source_file_path = None, test_file_path = None \<rparr>
      in (self, makedirs (run_dir self) fs))"

definition write_file ::
  "testing_environment \<Rightarrow> path \<Rightarrow> string \<Rightarrow> exn option \<Rightarrow> filesystem \<Rightarrow>
     (exn + path) \<times> filesystem" where
  "write_file self filename content err fs =
     (let file_path = run_dir self @ filename;
          fs = makedirs (butlast file_path) fs
      in case err of
           Some e \<Rightarrow> (Inl e, fs)
         | None \<Rightarrow> (Inr file_path, fs))"

definition setup_environment ::
  "testing_environment \<Rightarrow> string \<Rightarrow> string \<Rightarrow> path \<Rightarrow> path \<Rightarrow> (nat \<Rightarrow> exn option) \<Rightarrow>
     filesystem \<Rightarrow> (exn + testing_environment) \<times> filesystem" where
  "setup_environment self source_code test_code source_filename test_filename errs fs =
     (case write_file self source_filename source_code (errs 0) fs of
        (Inl e, fs) \<Rightarrow> (Inl e, fs)
      | (Inr p, fs) \<Rightarrow>
          (let self = self\<lparr>source_file_path := Some p\<rparr> in
             case write_file self test_filename test_code (errs 1) fs of
               (Inl e, fs) \<Rightarrow> (Inl e, fs)
             | (Inr p, fs) \<Rightarrow>
                 (let self = self\<lparr>test_file_path := Some p\<rparr> in
                    case write_file self (butlast source_filename @ [''__init__.py'']) []
                           (errs 2) fs of
                      (Inl e, fs) \<Rightarrow> (Inl e, fs)
                    | (Inr p, fs) \<Rightarrow>
                        (case write_file self (butlast test_filename @ [''__init__.py'']) []
                                (errs 3) fs of
                           (Inl e, fs) \<Rightarrow> (Inl e, fs)
                         | (Inr p, fs) \<Rightarrow> (Inr self, fs)))))"

text \<open>
  \<open>run_tests\<close>. \<open>framework.lower()\<close> needs a string; the command names the test file that
  \<open>setup_environment\<close> has stored; the three handlers around \<open>subprocess.run\<close> turn what it
  raises into a result with return code 1.
\<close>

definition run_tests ::
  "testing_environment \<Rightarrow> yaml \<Rightarrow> proc_result \<Rightarrow> exn + int \<times> string \<times> string" where
  "run_tests self framework proc =
     (case framework of
        YNum x \<Rightarrow> Inl (AttributeError ''float object has no attribute lower'')
      | YNull \<Rightarrow> Inl (AttributeError ''NoneType object has no attribute lower'')
      | YStr name \<Rightarrow>
          if lower name = ''pytest'' \<or> lower name = ''unittest'' then
            (case test_file_path self of
               None \<Rightarrow>
                 Inl (AttributeError ''TestingEnvironment object has no attribute test_file_path'')
             | Some test_file \<Rightarrow>
                 (case proc of
                    Completed returncode out err \<Rightarrow> Inr (returncode, out, err)
                  | Raised (TimeoutExpired m) \<Rightarrow> Inr (1, [], ''Error: Test execution timed out.'')
                  | Raised (FileNotFoundError m) \<Rightarrow>
                      Inr (1, [], ''Error: pytest/python executable not found.'')
                  | Raised e \<Rightarrow> Inr (1, [], ''Error running tests: '' @ str_exn e)))
          else Inl (ValueError (''Unsupported test framework: '' @ name)))"

text \<open>
  \<open>round(percentage, 2)\<close>: to the nearest multiple of 0.01, a tie going to the even one.
\<close>

definition round_half_even :: "real \<Rightarrow> int" where
  "round_half_even x =
     (let f = \<lfloor>x\<rfloor>; d = x - of_int f in
        if d < 1 / 2 then f
        else if 1 / 2 < d then f + 1
        else if even f then f else f + 1)"

definition round2 :: "real \<Rightarrow> real" where
  "round2 x = of_int (round_half_even (x * 100)) / 100"

text \<open>
  \<open>get_coverage\<close>. None of its three calls of \<open>subprocess.run\<close> stands inside a \<open>try\<close>:
  what they raise leaves the method. Only the reading of the report is guarded.
\<close>

definition get_coverage ::
  "testing_environment \<Rightarrow> sandbox_io \<Rightarrow> exn + real \<times> string" where
  "get_coverage self io =
     (case source_file_path self of
        None \<Rightarrow>
          Inl (AttributeError ''TestingEnvironment object has no attribute source_file_path'')
      | Some source_file \<Rightarrow>
     (case erase_proc io of
        Raised e \<Rightarrow> Inl e
      | Completed erase_code erase_out erase_err \<Rightarrow>
     (case coverage_proc io of
        Raised e \<Rightarrow> Inl e
      | Completed run_code run_out run_err \<Rightarrow>
          if run_code \<noteq> 0 \<and> \<not> sublist ''Coverage.py warning'' run_err
          then Inr (0.0, ''Coverage run failed: '' @ run_err)
          else
     (case report_proc io of
        Raised e \<Rightarrow> Inl e
      | Completed report_code report_out report_err \<Rightarrow>
          if report_code \<noteq> 0
          then Inr (0.0, ''Coverage report failed: '' @ report_err)
          else
     (case report_file io of
        None \<Rightarrow> Inr (0.0, ''Coverage JSON report not generated.'')
      | Some Undecodable \<Rightarrow> Inr (0.0, ''Failed to parse coverage JSON report.'')
      | Some (Unexpected e) \<Rightarrow> Inr (0.0, ''Error processing coverage report: '' @ str_exn e)
      | Some (CoverageData covered_lines missing_lines dumps) \<Rightarrow>
          (let total_covered = (case covered_lines of None \<Rightarrow> 0 | Some n \<Rightarrow> n);
               total_missed = (case missing_lines of None \<Rightarrow> 0 | Some n \<Rightarrow> n);
               total_lines = total_covered + total_missed
           in if 0 < total_lines
              then Inr (round2 (real total_covered / real total_lines * 100), dumps)
              else Inr (0.0, ''No executable lines found for coverage.'')))))))"

definition cleanup :: "testing_environment \<Rightarrow> filesystem \<Rightarrow> filesystem" where
  "cleanup self fs = (if path_exists (run_dir self) fs then rmtree (run_dir self) fs else fs)"

section \<open>drq\_engine/fitness\_evaluator.py\<close>

record results =
  test_pass_rate_correct_function :: real
  code_coverage_percentage :: real
  bug_detection_rate :: real
  false_positives_detected :: bool
  test_suite_run_output :: string
  test_suite_error_output :: string
  coverage_report_raw :: string
  total_score :: real

definition initial_results :: results where
  "initial_results =
     \<lparr> test_pass_rate_correct_function = 0.0,
       code_coverage_percentage = 0.0,
       bug_detection_rate = 0.0,
       false_positives_detected = False,
       test_suite_run_output = [],
       test_suite_error_output = [],
       coverage_report_raw = [],
       total_score = 0.0 \<rparr>"

text \<open>
  The parsed specification: of its keys the evaluator reads
  \<open>test_specifications.min_coverage_percentage\<close> (default 0) and
  \<open>test_specifications.framework\<close> (default \<open>pytest\<close>).
\<close>

record test_specifications =
  min_coverage_percentage :: "yaml option"
  framework :: "yaml option"

record gsd_spec =
  test_specifications :: "test_specifications option"

definition min_coverage_of :: "gsd_spec \<Rightarrow> yaml" where
  "min_coverage_of test_spec =
     (case test_specifications test_spec of
        None \<Rightarrow> YNum 0
      | Some ts \<Rightarrow> (case min_coverage_percentage ts of None \<Rightarrow> YNum 0 | Some v \<Rightarrow> v))"

definition framework_of :: "gsd_spec \<Rightarrow> yaml" where
  "framework_of test_spec =
     (case test_specifications test_spec of
        None \<Rightarrow> YStr ''pytest''
      | Some ts \<Rightarrow> (case framework ts of None \<Rightarrow> YStr ''pytest'' | Some v \<Rightarrow> v))"

definition test_runs_dir :: "path \<Rightarrow> path" where
  "test_runs_dir project_root_dir = project_root_dir @ [''output'', ''test_runs'']"

definition run_report :: "string \<Rightarrow> string \<Rightarrow> string \<Rightarrow> string" where
  "run_report title out err =
     ''--- Tests vs. '' @ title @ '' ---'' @ newline @ ''STDOUT:'' @ newline @ out @ newline @
     ''STDERR:'' @ newline @ err @ newline"

text \<open>
  Step 1, the body of the \<open>try\<close>: the exception that left it (if one did) and the report as
  it stood then.
\<close>

definition correct_function_body ::
  "testing_environment \<Rightarrow> string \<Rightarrow> string \<Rightarrow> yaml \<Rightarrow> sandbox_io \<Rightarrow> results \<Rightarrow> filesystem \<Rightarrow>
     exn option \<times> results \<times> filesystem" where
  "correct_function_body env_correct original_function_code generated_test_code fw io r fs =
     (case setup_environment env_correct original_function_code generated_test_code
             [''target_function.py''] [''test_target_function.py''] (write_errors io) fs of
        (Inl e, fs) \<Rightarrow> (Some e, r, fs)
      | (Inr env_correct, fs) \<Rightarrow>
          (case run_tests env_correct fw (test_proc io) of
             Inl e \<Rightarrow> (Some e, r, fs)
           | Inr (return_code, out, err) \<Rightarrow>
               (let r = r\<lparr>test_suite_run_output :=
                          test_suite_run_output r @ run_report ''Correct Function'' out err\<rparr>;
                    r = (if return_code = 0
                         then r\<lparr>test_pass_rate_correct_function := 100.0\<rparr>
                         else r\<lparr>false_positives_detected := True,
                                test_pass_rate_correct_function := 0.0\<rparr>)
                in case get_coverage env_correct io of
                     Inl e \<Rightarrow> (Some e, r, fs)
                   | Inr (coverage_percentage, coverage_report) \<Rightarrow>
                       (None,
                        r\<lparr>code_coverage_percentage := coverage_percentage,
                          coverage_report_raw := coverage_report\<rparr>,
                        fs))))"

text \<open>Step 1 with its handler and its \<open>finally\<close>.\<close>

definition evaluate_correct_function ::
  "path \<Rightarrow> string \<Rightarrow> string \<Rightarrow> yaml \<Rightarrow> sandbox_io \<Rightarrow> results \<Rightarrow> filesystem \<Rightarrow>
     results \<times> filesystem" where
  "evaluate_correct_function project_root_dir original_function_code generated_test_code fw io r fs =
     (case TestingEnvironment (test_runs_dir project_root_dir) (uuid4 io) fs of
        (env_correct, fs) \<Rightarrow>
          (case correct_function_body env_correct original_function_code generated_test_code
                  fw io r fs of
             (raised, r, fs) \<Rightarrow>
               (let r = (case raised of
                           None \<Rightarrow> r
                         | Some e \<Rightarrow>
                             r\<lparr>test_suite_error_output :=
                                 test_suite_error_output r @ ''Error: '' @ str_exn e @ newline\<rparr>)
                in (r, cleanup env_correct fs))))"

text \<open>Step 2: the state of the loop over \<open>range(num_fault_injections)\<close>.\<close>

record 'g loop_state =
  report :: results
  detected_bugs :: nat
  total_faults_attempted :: nat
  files :: filesystem
  rng :: 'g

definition mutated_function_body ::
  "testing_environment \<Rightarrow> string \<Rightarrow> string \<Rightarrow> yaml \<Rightarrow> nat \<Rightarrow> sandbox_io \<Rightarrow> 'g loop_state \<Rightarrow>
     exn option \<times> 'g loop_state" where
  "mutated_function_body env_mutated mutated_function_code generated_test_code fw i io st =
     (case setup_environment env_mutated mutated_function_code generated_test_code
             [''mutated_function_'' @ str_nat i @ ''.py''] [''test_target_function.py'']
             (write_errors io) (files st) of
        (Inl e, fs) \<Rightarrow> (Some e, st\<lparr>files := fs\<rparr>)
      | (Inr env_mutated, fs) \<Rightarrow>
          (let st = st\<lparr>files := fs\<rparr> in
             case run_tests env_mutated fw (test_proc io) of
               Inl e \<Rightarrow> (Some e, st)
             | Inr (return_code, out, err) \<Rightarrow>
                 (let st = st\<lparr>report := (report st)\<lparr>test_suite_run_output :=
                              test_suite_run_output (report st) @
                              run_report (''Mutated '' @ str_nat (i + 1)) out err\<rparr>\<rparr>
                  in if return_code \<noteq> 0
                     then (None, st\<lparr>detected_bugs := detected_bugs st + 1\<rparr>)
                     else (None, st))))"

text \<open>One iteration of the loop, for the index \<open>i\<close>.\<close>

definition fault_injection ::
  "'g python_lib \<Rightarrow> path \<Rightarrow> string \<Rightarrow> string \<Rightarrow> yaml \<Rightarrow> (nat \<Rightarrow> sandbox_io) \<Rightarrow>
     'g loop_state \<Rightarrow> nat \<Rightarrow> 'g loop_state" where
  "fault_injection L project_root_dir original_function_code generated_test_code fw ios st i =
     (case inject_simple_fault L original_function_code 1 (rng st) of
        (mutated_function_code, g) \<Rightarrow>
          (let st = st\<lparr>rng := g\<rparr> in
             if strip mutated_function_code = strip original_function_code then st
             else
               (let st = st\<lparr>total_faults_attempted := total_faults_attempted st + 1\<rparr> in
                  case TestingEnvironment (test_runs_dir project_root_dir) (uuid4 (ios i))
                         (files st) of
                    (env_mutated, fs) \<Rightarrow>
                      (case mutated_function_body env_mutated mutated_function_code
                              generated_test_code fw i (ios i) (st\<lparr>files := fs\<rparr>) of
                         (raised, st) \<Rightarrow>
                           (let st = (case raised of
                                        None \<Rightarrow> st
                                      | Some e \<Rightarrow>
                                          st\<lparr>report := (report st)\<lparr>test_suite_error_output :=
                                                test_suite_error_output (report st) @
                                                ''Error mutation '' @ str_nat (i + 1) @ '': '' @
                                                str_exn e @ newline\<rparr>\<rparr>)
                            in st\<lparr>files := cleanup env_mutated (files st)\<rparr>)))))"

text \<open>Steps 1 and 2, up to the bug detection rate.\<close>

definition gather_metrics ::
  "'g python_lib \<Rightarrow> path \<Rightarrow> string \<Rightarrow> string \<Rightarrow> gsd_spec \<Rightarrow> int \<Rightarrow> sandbox_io \<Rightarrow>
     (nat \<Rightarrow> sandbox_io) \<Rightarrow> filesystem \<times> 'g \<Rightarrow> 'g loop_state" where
  "gather_metrics L project_root_dir original_function_code generated_test_code test_spec
       num_fault_injections io ios w =
     (case evaluate_correct_function project_root_dir original_function_code generated_test_code
             (framework_of test_spec) io initial_results (fst w) of
        (r, fs) \<Rightarrow>
          (let st = foldl (fault_injection L project_root_dir original_function_code
                             generated_test_code (framework_of test_spec) ios)
                      \<lparr> report = r, detected_bugs = 0, total_faults_attempted = 0,
                        files = fs, rng = snd w \<rparr>
                      [0..<nat num_fault_injections]
           in st\<lparr>report := (report st)\<lparr>bug_detection_rate :=
                   (if 0 < total_faults_attempted st
                    then real (detected_bugs st) / real (total_faults_attempted st) * 100
                    else 0.0)\<rparr>\<rparr>))"

text \<open>
  \<open>coverage < min_coverage_spec\<close>: the target is whatever scalar the specification
  holds; comparing a float with a string or with \<open>None\<close> raises \<open>TypeError\<close>.
\<close>

definition float_lt :: "real \<Rightarrow> yaml \<Rightarrow> exn + bool" where
  "float_lt x v =
     (case v of
        YNum y \<Rightarrow> Inr (x < y)
      | YStr s \<Rightarrow> Inl (TypeError ''< not supported between instances of float and str'')
      | YNull \<Rightarrow> Inl (TypeError ''< not supported between instances of float and NoneType''))"

fun yaml_num :: "yaml \<Rightarrow> real" where
  "yaml_num (YNum y) = y"
| "yaml_num (YStr s) = 0"
| "yaml_num YNull = 0"

text \<open>
  Step 3 (``Calculate Total Score''), on the metrics gathered so far. \<open>yaml_num\<close> is only
  reached after \<open>float_lt\<close> has returned, that is on a number.
\<close>

definition calculate_total_score :: "results \<Rightarrow> yaml \<Rightarrow> exn + results" where
  "calculate_total_score r min_coverage_spec =
     (let score = 0.0;
          score = (if false_positives_detected r then score - 100.0 else score);
          score = score + test_pass_rate_correct_function r * 0.5
      in
        (case (if test_pass_rate_correct_function r = 100.0 then
                 (let score = score + code_coverage_percentage r * 0.3 in
                    case float_lt (code_coverage_percentage r) min_coverage_spec of
                      Inl e \<Rightarrow> Inl e
                    | Inr below \<Rightarrow>
                        Inr (if below
                             then score - (yaml_num min_coverage_spec - code_coverage_percentage r) * 0.5
                             else score))
               else Inr (score - code_coverage_percentage r * 0.1)) of
           Inl e \<Rightarrow> Inl e
         | Inr score \<Rightarrow>
             (let score = (if test_pass_rate_correct_function r = 100.0 \<and> \<not> false_positives_detected r
                           then score + bug_detection_rate r * 0.2 else score)
              in Inr (r\<lparr>total_score := max 0.0 score\<rparr>))))"

text \<open>
  \<open>FitnessEvaluator.evaluate_tests\<close>: the report, or the exception that left the method,
  with the file system and the generator as the call leaves them.
\<close>

definition evaluate_tests ::
  "'g python_lib \<Rightarrow> path \<Rightarrow> string \<Rightarrow> string \<Rightarrow> gsd_spec \<Rightarrow> int \<Rightarrow> sandbox_io \<Rightarrow>
     (nat \<Rightarrow> sandbox_io) \<Rightarrow> filesystem \<times> 'g \<Rightarrow> (exn + results) \<times> filesystem \<times> 'g" where
  "evaluate_tests L project_root_dir original_function_code generated_test_code test_spec
       num_fault_injections io ios w =
     (let st = gather_metrics L project_root_dir original_function_code generated_test_code
                 test_spec num_fault_injections io ios w
      in (calculate_total_score (report st) (min_coverage_of test_spec), files st, rng st))"

section \<open>drq\_engine/evolution\_orchestrator.py\<close>

record history_entry =
  generation :: nat
  timestamp :: string
  tests_content_hash :: int
  tests_content_summary :: string
  fitness_results :: "results option"
  status :: string

text \<open>
  The fields of the orchestrator that the loop reads and writes. \<open>None\<close> stands for the
  initial \<open>None\<close> of \<open>current_best_tests\<close> and for the empty dictionary of
  \<open>current_best_fitness\<close> (also the ``fitness'' stored with an error entry).
\<close>

record orchestrator =
  evolution_history :: "history_entry list"
  current_best_tests :: "string option"
  current_best_fitness :: "results option"

definition EvolutionOrchestrator :: orchestrator where
  "EvolutionOrchestrator =
     \<lparr> evolution_history = [], current_best_tests = None, current_best_fitness = None \<rparr>"

text \<open>
  What the world outside answers in one generation: the suite the generator agent returns
  or the exception it raises, the clock, and the sandboxes of the evaluation.
\<close>

record generation_io =
  generated_tests :: "exn + string"
  now :: string
  correct_io :: sandbox_io
  mutated_io :: "nat \<Rightarrow> sandbox_io"

definition save_generation_data ::
  "'g python_lib \<Rightarrow> orchestrator \<Rightarrow> nat \<Rightarrow> string \<Rightarrow> results option \<Rightarrow> string \<Rightarrow> string \<Rightarrow>
     orchestrator" where
  "save_generation_data L self gen tests fitness stat time =
     (let entry = \<lparr> generation = gen,
                     timestamp = time,
                     tests_content_hash = str_hash L tests,
                     tests_content_summary =
                       (if 200 < length tests then take 200 tests @ ''...'' else tests),
                     fitness_results = fitness,
                     status = stat \<rparr>
      in self\<lparr>evolution_history := evolution_history self @ [entry]\<rparr>)"

text \<open>
  Generation 0. Neither the generator call nor the evaluation stands inside a \<open>try\<close>.
  The first component of the result is the exception that left \<open>evolve_tests\<close>, if one did.
\<close>

definition initial_generation ::
  "'g python_lib \<Rightarrow> path \<Rightarrow> string \<Rightarrow> gsd_spec \<Rightarrow> generation_io \<Rightarrow>
     orchestrator \<times> filesystem \<times> 'g \<Rightarrow> exn option \<times> orchestrator \<times> filesystem \<times> 'g" where
  "initial_generation L project_root_dir target_function_code parsed_gsd_spec io s =
     (case s of (self, w) \<Rightarrow>
        (case generated_tests io of
           Inl e \<Rightarrow> (Some e, self, w)
         | Inr initial_tests \<Rightarrow>
             (case evaluate_tests L project_root_dir target_function_code initial_tests
                     parsed_gsd_spec 3 (correct_io io) (mutated_io io) w of
                (Inl e, w) \<Rightarrow> (Some e, self, w)
              | (Inr initial_fitness, w) \<Rightarrow>
                  (let self = self\<lparr>current_best_tests := Some initial_tests,
                                   current_best_fitness := Some initial_fitness\<rparr>
                   in (None,
                       save_generation_data L self 0 initial_tests (Some initial_fitness)
                         ''initial_generation'' (now io),
                       w)))))"

text \<open>
  The body of the loop for one generation \<open>gen\<close>. Only the generator call stands inside
  a \<open>try\<close>. Reading \<open>total_score\<close> from an empty dictionary is a \<open>KeyError\<close>.
\<close>

definition evolution_step ::
  "'g python_lib \<Rightarrow> path \<Rightarrow> string \<Rightarrow> gsd_spec \<Rightarrow> nat \<Rightarrow> generation_io \<Rightarrow>
     orchestrator \<times> filesystem \<times> 'g \<Rightarrow> exn option \<times> orchestrator \<times> filesystem \<times> 'g" where
  "evolution_step L project_root_dir target_function_code parsed_gsd_spec gen io s =
     (case s of (self, w) \<Rightarrow>
        (case generated_tests io of
           Inl e \<Rightarrow>
             (None, save_generation_data L self gen ''ERROR_GENERATION'' None ''error'' (now io), w)
         | Inr candidate_tests \<Rightarrow>
             (case evaluate_tests L project_root_dir target_function_code candidate_tests
                     parsed_gsd_spec 3 (correct_io io) (mutated_io io) w of
                (Inl e, w) \<Rightarrow> (Some e, self, w)
              | (Inr candidate_fitness, w) \<Rightarrow>
                  (case current_best_fitness self of
                     None \<Rightarrow> (Some (KeyError ''total_score''), self, w)
                   | Some best \<Rightarrow>
                       if total_score best < total_score candidate_fitness then
                         (let self = self\<lparr>current_best_tests := Some candidate_tests,
                                          current_best_fitness := Some candidate_fitness\<rparr>
                          in (None,
                              save_generation_data L self gen candidate_tests
                                (Some candidate_fitness) ''new_best'' (now io),
                              w))
                       else
                         (None,
                          save_generation_data L self gen candidate_tests
                            (Some candidate_fitness) ''not_best'' (now io),
                          w)))))"

text \<open>The loop \<open>for gen in range(1, max_generations + 1)\<close>, over the list of its indices.\<close>

fun evolution_loop ::
  "'g python_lib \<Rightarrow> path \<Rightarrow> string \<Rightarrow> gsd_spec \<Rightarrow> (nat \<Rightarrow> generation_io) \<Rightarrow> nat list \<Rightarrow>
     orchestrator \<times> filesystem \<times> 'g \<Rightarrow> exn option \<times> orchestrator \<times> filesystem \<times> 'g" where
  "evolution_loop L project_root_dir target_function_code parsed_gsd_spec ios [] s = (None, s)"
| "evolution_loop L project_root_dir target_function_code parsed_gsd_spec ios (gen # gens) s =
     (case evolution_step L project_root_dir target_function_code parsed_gsd_spec gen (ios gen) s of
        (Some e, s) \<Rightarrow> (Some e, s)
      | (None, s) \<Rightarrow>
          evolution_loop L project_root_dir target_function_code parsed_gsd_spec ios gens s)"

text \<open>
  \<open>evolve_tests\<close>. The dictionary it returns holds the three fields of the orchestrator.
\<close>

definition evolve_tests ::
  "'g python_lib \<Rightarrow> path \<Rightarrow> string \<Rightarrow> gsd_spec \<Rightarrow> int \<Rightarrow> (nat \<Rightarrow> generation_io) \<Rightarrow>
     orchestrator \<times> filesystem \<times> 'g \<Rightarrow> exn option \<times> orchestrator \<times> filesystem \<times> 'g" where
  "evolve_tests L project_root_dir target_function_code parsed_gsd_spec max_generations ios s =
     (case initial_generation L project_root_dir target_function_code parsed_gsd_spec (ios 0) s of
        (Some e, s) \<Rightarrow> (Some e, s)
      | (None, s) \<Rightarrow>
          evolution_loop L project_root_dir target_function_code parsed_gsd_spec ios
            [1..<nat (max_generations + 1)] s)"

text \<open>
  The run observed generation by generation: the orchestrator as each completed
  generation leaves it, up to the generation out of which an exception escapes.
\<close>

fun evolution_trace ::
  "'g python_lib \<Rightarrow> path \<Rightarrow> string \<Rightarrow> gsd_spec \<Rightarrow> (nat \<Rightarrow> generation_io) \<Rightarrow> nat list \<Rightarrow>
     orchestrator \<times> filesystem \<times> 'g \<Rightarrow> orchestrator list" where
  "evolution_trace L project_root_dir target_function_code parsed_gsd_spec ios [] s = []"
| "evolution_trace L project_root_dir target_function_code parsed_gsd_spec ios (gen # gens) s =
     (case evolution_step L project_root_dir target_function_code parsed_gsd_spec gen (ios gen) s of
        (Some e, s) \<Rightarrow> []
      | (None, s) \<Rightarrow>
          fst s # evolution_trace L project_root_dir target_function_code parsed_gsd_spec ios gens s)"

definition evolve_trace ::
  "'g python_lib \<Rightarrow> path \<Rightarrow> string \<Rightarrow> gsd_spec \<Rightarrow> int \<Rightarrow> (nat \<Rightarrow> generation_io) \<Rightarrow>
     orchestrator \<times> filesystem \<times> 'g \<Rightarrow> orchestrator list" where
  "evolve_trace L project_root_dir target_function_code parsed_gsd_spec max_generations ios s =
     (case initial_generation L project_root_dir target_function_code parsed_gsd_spec (ios 0) s of
        (Some e, s) \<Rightarrow> []
      | (None, s) \<Rightarrow>
          fst s # evolution_trace L project_root_dir target_function_code parsed_gsd_spec ios
            [1..<nat (max_generations + 1)] s)"

definition best_total_score :: "orchestrator \<Rightarrow> real option" where
  "best_total_score self = map_option total_score (current_best_fitness self)"

section \<open>The notions of the specification\<close>

text \<open>
  The generator state before iteration \<open>i\<close> of the loop, and the text that iteration \<open>i\<close>
  gets from \<open>inject_simple_fault\<close>.
\<close>

primrec rng_after :: "'g python_lib \<Rightarrow> string \<Rightarrow> 'g \<Rightarrow> nat \<Rightarrow> 'g" where
  "rng_after L code g 0 = g"
| "rng_after L code g (Suc i) = snd (inject_simple_fault L code 1 (rng_after L code g i))"

definition mutant_text :: "'g python_lib \<Rightarrow> string \<Rightarrow> 'g \<Rightarrow> nat \<Rightarrow> string" where
  "mutant_text L code g i = fst (inject_simple_fault L code 1 (rng_after L code g i))"

text \<open>
  A no-op mutant: the comparison the loop makes before it counts an attempt.
\<close>

definition is_noop :: "string \<Rightarrow> string \<Rightarrow> bool" where
  "is_noop original mutant = (strip mutant = strip original)"

text \<open>
  The exit status of the test run in one sandbox: the return code that \<open>run_tests\<close> reports,
  where a process that could not be run to its end counts as 1; \<open>None\<close> when setting the
  sandbox up or starting the run raised.
\<close>

definition setup_raises :: "sandbox_io \<Rightarrow> bool" where
  "setup_raises io = list_ex (\<lambda>k. write_errors io k \<noteq> None) [0, 1, 2, 3]"

definition exit_status :: "yaml \<Rightarrow> sandbox_io \<Rightarrow> int option" where
  "exit_status fw io =
     (if setup_raises io then None
      else
        (case fw of
           YStr name \<Rightarrow>
             if lower name = ''pytest'' \<or> lower name = ''unittest''
             then Some (case test_proc io of Completed rc out err \<Rightarrow> rc | Raised e \<Rightarrow> 1)
             else None
         | YNum x \<Rightarrow> None
         | YNull \<Rightarrow> None))"

definition exited_non_zero :: "yaml \<Rightarrow> sandbox_io \<Rightarrow> bool" where
  "exited_non_zero fw io = (case exit_status fw io of None \<Rightarrow> False | Some rc \<Rightarrow> rc \<noteq> 0)"

text \<open>
  The mutants attempted among the first \<open>K\<close> iterations (those that are not no-ops), and
  among them those whose run exited with a status other than 0.
\<close>

definition attempted_mutants :: "'g python_lib \<Rightarrow> string \<Rightarrow> 'g \<Rightarrow> nat \<Rightarrow> nat list" where
  "attempted_mutants L code g K =
     filter (\<lambda>i. \<not> is_noop code (mutant_text L code g i)) [0..<K]"

definition detected_mutants ::
  "'g python_lib \<Rightarrow> string \<Rightarrow> 'g \<Rightarrow> yaml \<Rightarrow> (nat \<Rightarrow> sandbox_io) \<Rightarrow> nat \<Rightarrow> nat list" where
  "detected_mutants L code g fw ios K =
     filter (\<lambda>i. exited_non_zero fw (ios i)) (attempted_mutants L code g K)"

text \<open>The metrics that step 1 of the evaluation sets.\<close>

definition step1_metrics :: "results \<Rightarrow> real \<times> real \<times> bool" where
  "step1_metrics r =
     (test_pass_rate_correct_function r, code_coverage_percentage r, false_positives_detected r)"

text \<open>
  The framework selectors that \<open>run_tests\<close> knows, and a coverage report that cannot be
  read: missing, not decodable, or of an unexpected shape.
\<close>

definition supported_framework :: "string \<Rightarrow> bool" where
  "supported_framework name = (lower name = ''pytest'' \<or> lower name = ''unittest'')"

definition malformed_report :: "coverage_json option \<Rightarrow> bool" where
  "malformed_report f =
     (case f of
        None \<Rightarrow> True
      | Some Undecodable \<Rightarrow> True
      | Some (Unexpected e) \<Rightarrow> True
      | Some (CoverageData covered_lines missing_lines dumps) \<Rightarrow> False)"

text \<open>
  Elitism: between two consecutive generations the best suite and its report are kept, or
  replaced by a report with a strictly greater total score. \<open>best_le\<close> compares the best
  total scores of two states of the orchestrator that both hold one.
\<close>

definition best_le :: "orchestrator \<Rightarrow> orchestrator \<Rightarrow> bool" where
  "best_le x y =
     (case (best_total_score x, best_total_score y) of
        (Some a, Some b) \<Rightarrow> a \<le> b
      | _ \<Rightarrow> False)"

definition elitist_step :: "orchestrator \<Rightarrow> orchestrator \<Rightarrow> bool" where
  "elitist_step x y =
     (current_best_fitness y = current_best_fitness x \<and>
        current_best_tests y = current_best_tests x \<or>
      (case (best_total_score x, best_total_score y) of
         (Some a, Some b) \<Rightarrow> a < b
       | _ \<Rightarrow> False))"

section \<open>A small instance of the library and of the world outside\<close>

text \<open>
  Concrete parameters on which the definitions can be run: a parser and a printer that
  know two one-line programs, a counter as generator state, and a sandbox whose test
  process ends with a given return code and whose coverage report counts 7 covered and 3
  missing lines.
\<close>

definition example_parse :: "string \<Rightarrow> exn + node" where
  "example_parse code =
     (if code = ''return a + b''
      then Inr (Other ''Module'' [Return (Some (BinOp (Other ''a'' []) Add (Other ''b'' [])))])
      else if code = ''while c: pass''
      then Inr (Other ''Module'' [While (Other ''c'' []) [Other ''Pass'' []] []])
      else Inl (SyntaxError ''invalid syntax''))"

definition example_unparse :: "node \<Rightarrow> exn + string" where
  "example_unparse tree =
     (if tree = Other ''Module'' [Return (Some (BinOp (Other ''a'' []) Add (Other ''b'' [])))]
      then Inr ''return a + b''
      else if tree = Other ''Module'' [Return (Some (Constant (ConstInt 0)))]
      then Inr ''return 0''
      else if tree = Other ''Module'' [While (Other ''c'' []) [Other ''Pass'' []] []]
      then Inr ''while c: pass''
      else Inl (OtherException ''cannot unparse''))"

definition example_lib :: "nat python_lib" where
  "example_lib =
     \<lparr> ast_parse = example_parse,
       ast_unparse = example_unparse,
       random_seed = (\<lambda>a. nat \<bar>a\<bar>),
       random_sample = (\<lambda>g n k. (take k [0..<n], Suc g)),
       random_randbelow = (\<lambda>g n. (g mod n, Suc g)),
       str_hash = (\<lambda>s. int (length s)) \<rparr>"

definition example_io :: "int \<Rightarrow> sandbox_io" where
  "example_io code =
     \<lparr> uuid4 = ''u'',
       write_errors = (\<lambda>k. None),
       test_proc = Completed code [] [],
       erase_proc = Completed 0 [] [],
       coverage_proc = Completed 0 [] [],
       report_proc = Completed 0 [] [],
       report_file = Some (CoverageData (Some 7) (Some 3) ''{}'') \<rparr>"

definition example_mutant_io :: "int \<Rightarrow> nat \<Rightarrow> sandbox_io" where
  "example_mutant_io code i = (example_io code)\<lparr>uuid4 := ''m'' @ str_nat i\<rparr>"

definition example_spec :: "yaml option \<Rightarrow> gsd_spec" where
  "example_spec target =
     \<lparr> test_specifications = Some \<lparr> min_coverage_percentage = target, framework = None \<rparr> \<rparr>"

text \<open>
  Two sandboxes in which something goes wrong: every file write of the set-up fails, and
  the coverage run times out.
\<close>

definition failing_io :: sandbox_io where
  "failing_io = (example_io 0)\<lparr>uuid4 := ''v'', write_errors := (\<lambda>k. Some (OSError ''disk full''))\<rparr>"

definition timeout_io :: sandbox_io where
  "timeout_io = (example_io 0)\<lparr>uuid4 := ''w'', coverage_proc := Raised (TimeoutExpired ''timed out'')\<rparr>"

text \<open>
  A sandbox after its set-up, a sandbox whose coverage report is not decodable, and two
  runs of the loop: one whose generation 1 fails in the generator, and one whose
  generation 0 fails on the correct function while generation 1 passes it. Every sandbox
  has a name of its own.
\<close>

definition example_environment :: testing_environment where
  "example_environment =
     \<lparr> base_dir = [''proj'', ''output'', ''test_runs''],
       run_dir = [''proj'', ''output'', ''test_runs'', ''u''],
       source_file_path = Some [''proj'', ''output'', ''test_runs'', ''u'', ''target_function.py''],
       test_file_path =
         Some [''proj'', ''output'', ''test_runs'', ''u'', ''test_target_function.py''] \<rparr>"

definition undecodable_io :: sandbox_io where
  "undecodable_io = (example_io 0)\<lparr>report_file := Some Undecodable\<rparr>"

definition example_generation :: "nat \<Rightarrow> (exn + string) \<Rightarrow> int \<Rightarrow> generation_io" where
  "example_generation gen suite code =
     \<lparr> generated_tests = suite,
       now = ''2024-01-01T00:00:0'' @ str_nat gen,
       correct_io = (example_io code)\<lparr>uuid4 := ''c'' @ str_nat gen\<rparr>,
       mutated_io = (\<lambda>i. (example_io 1)\<lparr>uuid4 := ''g'' @ str_nat gen @ ''m'' @ str_nat i\<rparr>) \<rparr>"

definition example_run :: "nat \<Rightarrow> generation_io" where
  "example_run gen =
     (if gen = 0 then example_generation gen (Inr ''tests 0'') 1
      else if gen = 1 then example_generation gen (Inl (OtherException ''no answer'')) 0
      else example_generation gen (Inr ''tests 2'') 0)"

definition example_raising_run :: "nat \<Rightarrow> generation_io" where
  "example_raising_run gen =
     (if gen = 0 then example_generation gen (Inr ''tests 0'') 1
      else example_generation gen (Inr ''tests 1'') 0)"

section \<open>Facts about the fault injector\<close>

lemma inject_faults_seed_independent:
  "fst (inject_faults L self tree g1) = fst (inject_faults L self tree g2)"
  by (simp add: inject_faults_def Let_def)

lemma try_inject_seed_independent:
  "fst (try_inject_simple_fault L code n g1) = fst (try_inject_simple_fault L code n g2)"
proof (cases "ast_parse L code")
  case (Inl e)
  then show ?thesis by (simp add: try_inject_simple_fault_def)
next
  case (Inr tree)
  obtain r1 s1 h1 where a: "inject_faults L (FaultInjector n) tree g1 = (r1, s1, h1)"
    by (cases "inject_faults L (FaultInjector n) tree g1")
  obtain r2 s2 h2 where b: "inject_faults L (FaultInjector n) tree g2 = (r2, s2, h2)"
    by (cases "inject_faults L (FaultInjector n) tree g2")
  from inject_faults_seed_independent [of L "FaultInjector n" tree g1 g2] a b
  have "r1 = r2" by simp
  with Inr a b show ?thesis
    by (simp add: try_inject_simple_fault_def split: sum.splits)
qed

lemma inject_simple_fault_seed_independent:
  "fst (inject_simple_fault L code n g1) = fst (inject_simple_fault L code n g2)"
proof -
  obtain r1 h1 where a: "try_inject_simple_fault L code n g1 = (r1, h1)"
    by (cases "try_inject_simple_fault L code n g1")
  obtain r2 h2 where b: "try_inject_simple_fault L code n g2 = (r2, h2)"
    by (cases "try_inject_simple_fault L code n g2")
  from try_inject_seed_independent [of L code n g1 g2] a b have "r1 = r2" by simp
  with a b show ?thesis
    by (simp add: inject_simple_fault_def split: sum.splits exn.splits)
qed

lemma inject_simple_fault_parse_error:
  "ast_parse L code = Inl e \<Longrightarrow> inject_simple_fault L code n g = (code, g)"
  by (simp add: inject_simple_fault_def try_inject_simple_fault_def split: exn.splits)

text \<open>
  An example with four selected locations: the \<open>if\<close> loses its \<open>not\<close>, the comparison under
  it is changed in place and stays visible, the returned expression is replaced by 0, and
  the change of the addition inside it is lost with it.
\<close>

lemma inject_faults_example:
  "fst (inject_faults example_lib (FaultInjector 4)
         (Other ''Module''
            [IfStmt (UnaryOp NotOp (Compare (Other ''x'' []) [Lt] [Constant (ConstInt 0)]))
               [Return (Some (BinOp (Other ''x'' []) Add (Constant (ConstInt 1))))] []]) 7) =
   Inr (Other ''Module''
          [IfStmt (Compare (Other ''x'' []) [NotEq] [Constant (ConstInt 0)])
             [Return (Some (Constant (ConstInt 0)))] []])"
  by code_simp

section \<open>Facts about the sandbox and the evaluation loop\<close>

lemma setup_environment_io:
  "(setup_raises io \<and> (\<exists>e fs'. setup_environment self src tst sf tf (write_errors io) fs = (Inl e, fs'))) \<or>
   (\<not> setup_raises io \<and>
      (\<exists>sp tp fs'. setup_environment self src tst sf tf (write_errors io) fs =
          (Inr (self\<lparr>source_file_path := Some sp, test_file_path := Some tp\<rparr>), fs')))"
  by (auto simp: setup_raises_def setup_environment_def write_file_def Let_def split: option.splits)

lemma run_tests_exit_status:
  assumes "test_file_path self = Some tp" and "\<not> setup_raises io"
  shows "(case run_tests self fw (test_proc io) of Inl e \<Rightarrow> None | Inr (rc, out, err) \<Rightarrow> Some rc) = exit_status fw io"
  using assms
  by (cases fw; cases "test_proc io")
     (auto simp: run_tests_def exit_status_def split: exn.splits)

lemma makedirs_idem: "makedirs p (makedirs p fs) = makedirs p fs"
  by (auto simp: makedirs_def)

lemma write_file_files:
  "write_file self [name] content err fs = (r, fs') \<Longrightarrow> fs' = makedirs (run_dir self) fs"
  by (auto simp: write_file_def Let_def split: option.splits)

lemma setup_environment_files:
  assumes "setup_environment self src tst [sf] [tf] errs fs = (r, fs')"
  shows "fs' = makedirs (run_dir self) fs"
  using assms
  by (auto simp: setup_environment_def write_file_def Let_def makedirs_idem split: option.splits)

lemma mutated_function_body_effect:
  assumes "mutated_function_body env t tests fw i io st = (raised, st')"
  shows "detected_bugs st' = detected_bugs st + (if exited_non_zero fw io then 1 else 0)"
    and "total_faults_attempted st' = total_faults_attempted st"
    and "rng st' = rng st"
    and "step1_metrics (report st') = step1_metrics (report st)"
    and "files st' = makedirs (run_dir env) (files st)"
proof -
  let ?sf = "''mutated_function_'' @ str_nat i @ ''.py''"
  obtain r fs' where su: "setup_environment env t tests [?sf] [''test_target_function.py''] (write_errors io) (files st) = (r, fs')"
    by (cases "setup_environment env t tests [?sf] [''test_target_function.py''] (write_errors io) (files st)")
  have fs': "fs' = makedirs (run_dir env) (files st)"
    using setup_environment_files [OF su] .
  consider (fail) e where "setup_raises io" "r = Inl e"
    | (ok) sp tp where "\<not> setup_raises io" "r = Inr (env\<lparr>source_file_path := Some sp, test_file_path := Some tp\<rparr>)"
    using setup_environment_io [of io env t tests "[?sf]" "[''test_target_function.py'']" "files st"] su
    by auto
  then have "detected_bugs st' = detected_bugs st + (if exited_non_zero fw io then 1 else 0) \<and>
    total_faults_attempted st' = total_faults_attempted st \<and> rng st' = rng st \<and>
    step1_metrics (report st') = step1_metrics (report st) \<and> files st' = makedirs (run_dir env) (files st)"
  proof cases
    case fail
    with assms su fs' show ?thesis
      by (auto simp: mutated_function_body_def exited_non_zero_def exit_status_def)
  next
    case ok
    let ?env = "env\<lparr>source_file_path := Some sp, test_file_path := Some tp\<rparr>"
    have ex: "(case run_tests ?env fw (test_proc io) of Inl e \<Rightarrow> None | Inr (rc, out, err) \<Rightarrow> Some rc) = exit_status fw io"
      using run_tests_exit_status [of ?env tp io fw] ok by simp
    show ?thesis
    proof (cases "run_tests ?env fw (test_proc io)")
      case (Inl e)
      with ex have "exit_status fw io = None" by simp
      with assms su fs' ok Inl show ?thesis
        by (auto simp: mutated_function_body_def exited_non_zero_def Let_def)
    next
      case (Inr res)
      obtain rc out err where res: "res = (rc, out, err)" by (cases res)
      with ex Inr have "exit_status fw io = Some rc" by simp
      with assms su fs' ok Inr res show ?thesis
        by (auto simp: mutated_function_body_def exited_non_zero_def Let_def step1_metrics_def)
    qed
  qed
  then show "detected_bugs st' = detected_bugs st + (if exited_non_zero fw io then 1 else 0)"
    and "total_faults_attempted st' = total_faults_attempted st"
    and "rng st' = rng st"
    and "step1_metrics (report st') = step1_metrics (report st)"
    and "files st' = makedirs (run_dir env) (files st)"
    by simp_all
qed

lemma run_dir_TestingEnvironment:
  "TestingEnvironment base u fs = (env, fs') \<Longrightarrow> run_dir env = base @ [u] \<and> fs' = makedirs (base @ [u]) fs"
  by (auto simp: TestingEnvironment_def Let_def)

lemma cleanup_removes: "run_dir env \<notin> cleanup env fs"
  by (auto simp: cleanup_def path_exists_def rmtree_def)

lemma cleanup_subset: "cleanup env fs \<subseteq> fs"
  by (auto simp: cleanup_def rmtree_def)

lemma fault_injection_noop:
  assumes "inject_simple_fault L code 1 (rng st) = (t', g')" and "strip t' = strip code"
  shows "fault_injection L proj code tests fw ios st i = st\<lparr>rng := g'\<rparr>"
  using assms by (simp add: fault_injection_def)

lemma fault_injection_attempt:
  assumes "inject_simple_fault L code 1 (rng st) = (t', g')" and "strip t' \<noteq> strip code"
    and "TestingEnvironment (test_runs_dir proj) (uuid4 (ios i)) (files st) = (env, fs)"
    and "mutated_function_body env t' tests fw i (ios i)
           (st\<lparr>rng := g', total_faults_attempted := total_faults_attempted st + 1, files := fs\<rparr>) = (raised, st2)"
  shows "fault_injection L proj code tests fw ios st i =
     (case raised of
        None \<Rightarrow> st2\<lparr>files := cleanup env (files st2)\<rparr>
      | Some e \<Rightarrow>
          st2\<lparr>report := (report st2)\<lparr>test_suite_error_output :=
                 test_suite_error_output (report st2) @ ''Error mutation '' @ str_nat (i + 1) @ '': '' @
                 str_exn e @ newline\<rparr>,
               files := cleanup env (files st2)\<rparr>)"
  using assms by (cases raised) (simp_all add: fault_injection_def)

lemma fault_injection_effect:
  assumes t_def: "t = fst (inject_simple_fault L code 1 (rng st))"
    and st'_def: "st' = fault_injection L proj code tests fw ios st i"
  shows "rng st' = snd (inject_simple_fault L code 1 (rng st)) \<and>
    total_faults_attempted st' = total_faults_attempted st + (if is_noop code t then 0 else 1) \<and>
    detected_bugs st' =
      detected_bugs st + (if \<not> is_noop code t \<and> exited_non_zero fw (ios i) then 1 else 0) \<and>
    step1_metrics (report st') = step1_metrics (report st) \<and>
    (is_noop code t \<or> test_runs_dir proj @ [uuid4 (ios i)] \<notin> files st') \<and>
    files st' \<subseteq> files st \<union> set (prefixes (test_runs_dir proj))"
proof -
  obtain t' g' where inj: "inject_simple_fault L code 1 (rng st) = (t', g')"
    by (cases "inject_simple_fault L code 1 (rng st)")
  then have t: "t = t'" by (simp add: t_def)
  show ?thesis
  proof (cases "is_noop code t")
    case True
    then have "strip t' = strip code" using t by (simp add: is_noop_def)
    from fault_injection_noop [OF inj this] have "st' = st\<lparr>rng := g'\<rparr>"
      by (simp add: st'_def)
    with True inj show ?thesis by simp
  next
    case False
    then have ne: "strip t' \<noteq> strip code" using t by (simp add: is_noop_def)
    let ?run = "test_runs_dir proj @ [uuid4 (ios i)]"
    obtain env fs where te: "TestingEnvironment (test_runs_dir proj) (uuid4 (ios i)) (files st) = (env, fs)"
      by (cases "TestingEnvironment (test_runs_dir proj) (uuid4 (ios i)) (files st)")
    let ?st1 = "st\<lparr>rng := g', total_faults_attempted := total_faults_attempted st + 1, files := fs\<rparr>"
    obtain raised st2 where body: "mutated_function_body env t' tests fw i (ios i) ?st1 = (raised, st2)"
      by (cases "mutated_function_body env t' tests fw i (ios i) ?st1")
    note eff = mutated_function_body_effect [OF body]
    note rd = run_dir_TestingEnvironment [OF te]
    note st' = fault_injection_attempt [where ios = ios and i = i, OF inj ne te body, folded st'_def]
    have files: "files st' = cleanup env (files st2)"
      using st' by (cases raised) simp_all
    have 1: "rng st' = snd (inject_simple_fault L code 1 (rng st))"
      using st' eff(3) inj by (cases raised) simp_all
    have 2: "total_faults_attempted st' = total_faults_attempted st + (if is_noop code t then 0 else 1)"
      using st' eff(2) False by (cases raised) simp_all
    have 3: "detected_bugs st' = detected_bugs st + (if \<not> is_noop code t \<and> exited_non_zero fw (ios i) then 1 else 0)"
      using st' eff(1) False by (cases raised) simp_all
    have 4: "step1_metrics (report st') = step1_metrics (report st)"
      using st' eff(4) by (cases raised) (simp_all add: step1_metrics_def)
    have 5: "?run \<notin> files st'"
      using files rd cleanup_removes [of env "files st2"] by simp
    have "files st2 = makedirs (run_dir env) fs"
      using eff(5) by simp
    also have "\<dots> = makedirs ?run (files st)"
      using rd by (simp add: makedirs_idem)
    finally have f2: "files st2 = makedirs ?run (files st)" .
    have "files st' \<subseteq> files st2"
      using files cleanup_subset [of env "files st2"] by simp
    moreover have "?run \<notin> files st'" by (rule 5)
    ultimately have 6: "files st' \<subseteq> files st \<union> set (prefixes (test_runs_dir proj))"
      using f2 by (auto simp: makedirs_def prefixes_snoc)
    from 1 2 3 4 5 6 show ?thesis by simp
  qed
qed

lemma round_half_even_bounds:
  assumes "0 \<le> x" and "x \<le> of_int n"
  shows "0 \<le> round_half_even x \<and> round_half_even x \<le> n"
proof -
  have f0: "0 \<le> \<lfloor>x\<rfloor>" using assms(1) by simp
  have fn: "\<lfloor>x\<rfloor> \<le> n" using assms(2) by (simp add: floor_le_iff)
  show ?thesis
  proof (cases "\<lfloor>x\<rfloor> = n")
    case True
    then have "x - of_int \<lfloor>x\<rfloor> \<le> 0" using assms(2) by simp
    then show ?thesis using f0 True by (simp add: round_half_even_def Let_def)
  next
    case False
    with fn have "\<lfloor>x\<rfloor> + 1 \<le> n" by simp
    with f0 fn show ?thesis by (auto simp: round_half_even_def Let_def)
  qed
qed

lemma round2_bounds:
  assumes "0 \<le> x" and "x \<le> 100"
  shows "0 \<le> round2 x \<and> round2 x \<le> 100"
proof -
  have "0 \<le> x * 100" and "x * 100 \<le> of_int 10000" using assms by simp_all
  from round_half_even_bounds [OF this]
  have lo: "0 \<le> round_half_even (x * 100)" and hi: "round_half_even (x * 100) \<le> 10000"
    by simp_all
  have "(0::real) \<le> of_int (round_half_even (x * 100))"
    using lo by simp
  moreover have "(of_int (round_half_even (x * 100))::real) \<le> of_int 10000"
    using hi by (simp only: of_int_le_iff)
  ultimately show ?thesis by (simp add: round2_def)
qed

lemma percentage_bounds: "0 \<le> q \<Longrightarrow> q \<le> 1 \<Longrightarrow> 0 \<le> q * 100 \<and> q * 100 \<le> (100::real)"
  by simp

lemma get_coverage_range:
  assumes "get_coverage self io = Inr (c, rep)"
  shows "0 \<le> c \<and> c \<le> 100"
proof -
  have frac: "0 \<le> real a / real (a + b) * 100 \<and> real a / real (a + b) * 100 \<le> 100"
    if "0 < a + b" for a b :: nat
  proof -
    have "real a \<le> real (a + b)" by simp
    moreover have "0 < real (a + b)" using that by (simp only: of_nat_0_less_iff)
    ultimately have "real a / real (a + b) \<le> 1" by (simp only: divide_le_eq_1_pos)
    moreover have "0 \<le> real a / real (a + b)" by simp
    ultimately show ?thesis by (intro percentage_bounds)
  qed
  show ?thesis
    using assms round2_bounds frac
    by (auto simp: get_coverage_def Let_def
          split: option.splits proc_result.splits if_splits coverage_json.splits)
qed

lemma correct_function_body_metrics:
  assumes "correct_function_body env code tests fw io initial_results fs = (raised, r, fs')"
  shows "(false_positives_detected r \<and> test_pass_rate_correct_function r = 0 \<or>
          \<not> false_positives_detected r \<and>
            (test_pass_rate_correct_function r = 0 \<or> test_pass_rate_correct_function r = 100)) \<and>
         0 \<le> code_coverage_percentage r \<and> code_coverage_percentage r \<le> 100"
proof -
  obtain s fs1 where su: "setup_environment env code tests [''target_function.py'']
      [''test_target_function.py''] (write_errors io) fs = (s, fs1)"
    by (cases "setup_environment env code tests [''target_function.py'']
      [''test_target_function.py''] (write_errors io) fs")
  show ?thesis
  proof (cases s)
    case (Inl e)
    with assms su show ?thesis
      by (auto simp: correct_function_body_def initial_results_def)
  next
    case (Inr env')
    show ?thesis
    proof (cases "run_tests env' fw (test_proc io)")
      case (Inl e)
      with assms su Inr show ?thesis
        by (auto simp: correct_function_body_def initial_results_def)
    next
      case run: (Inr res)
      obtain rc out err where res: "res = (rc, out, err)" by (cases res)
      show ?thesis
      proof (cases "get_coverage env' io")
        case (Inl e)
        with assms su Inr run res show ?thesis
          by (cases "rc = 0") (auto simp: correct_function_body_def initial_results_def Let_def)
      next
        case cov: (Inr cr)
        obtain c rep where cr: "cr = (c, rep)" by (cases cr)
        from get_coverage_range cov cr have "0 \<le> c \<and> c \<le> 100" by simp
        with assms su Inr run res cov cr show ?thesis
          by (cases "rc = 0") (auto simp: correct_function_body_def initial_results_def Let_def)
      qed
    qed
  qed
qed

lemma correct_function_body_files:
  assumes "correct_function_body env code tests fw io r0 fs = (raised, r, fs')"
  shows "fs' = makedirs (run_dir env) fs"
proof -
  obtain s fs1 where su: "setup_environment env code tests [''target_function.py'']
      [''test_target_function.py''] (write_errors io) fs = (s, fs1)"
    by (cases "setup_environment env code tests [''target_function.py'']
      [''test_target_function.py''] (write_errors io) fs")
  from setup_environment_files [OF su] have "fs1 = makedirs (run_dir env) fs" .
  with assms su show ?thesis
    by (auto simp: correct_function_body_def Let_def split: sum.splits prod.splits)
qed

lemma not_prefix_snoc: "p @ [u] \<notin> set (prefixes p)"
  by (simp add: in_set_prefixes prefix_def)

lemma evaluate_correct_function_effect:
  assumes "evaluate_correct_function proj code tests fw io initial_results fs = (r, fs')"
  shows "(false_positives_detected r \<and> test_pass_rate_correct_function r = 0 \<or>
          \<not> false_positives_detected r \<and>
            (test_pass_rate_correct_function r = 0 \<or> test_pass_rate_correct_function r = 100)) \<and>
         0 \<le> code_coverage_percentage r \<and> code_coverage_percentage r \<le> 100 \<and>
         test_runs_dir proj @ [uuid4 io] \<notin> fs' \<and>
         fs' \<subseteq> fs \<union> set (prefixes (test_runs_dir proj))"
proof -
  let ?run = "test_runs_dir proj @ [uuid4 io]"
  obtain env fs0 where te: "TestingEnvironment (test_runs_dir proj) (uuid4 io) fs = (env, fs0)"
    by (cases "TestingEnvironment (test_runs_dir proj) (uuid4 io) fs")
  obtain raised r1 fs1 where body:
    "correct_function_body env code tests fw io initial_results fs0 = (raised, r1, fs1)"
    by (cases "correct_function_body env code tests fw io initial_results fs0") 
  note rd = run_dir_TestingEnvironment [OF te]
  note m = correct_function_body_metrics [OF body]
  have f1: "fs1 = makedirs ?run fs"
    using correct_function_body_files [OF body] rd by (simp add: makedirs_idem)
  have r: "r = (case raised of None \<Rightarrow> r1 | Some e \<Rightarrow>
              r1\<lparr>test_suite_error_output := test_suite_error_output r1 @ ''Error: '' @ str_exn e @ newline\<rparr>)"
    and fs': "fs' = cleanup env fs1"
    using assms te body by (simp_all add: evaluate_correct_function_def)
  have 1: "(false_positives_detected r \<and> test_pass_rate_correct_function r = 0 \<or>
          \<not> false_positives_detected r \<and>
            (test_pass_rate_correct_function r = 0 \<or> test_pass_rate_correct_function r = 100)) \<and>
         0 \<le> code_coverage_percentage r \<and> code_coverage_percentage r \<le> 100"
    using m r by (cases raised) simp_all
  have 2: "?run \<notin> fs'"
    using fs' rd cleanup_removes [of env fs1] by simp
  have "fs' \<subseteq> fs1" using fs' cleanup_subset [of env fs1] by simp
  with 2 f1 have 3: "fs' \<subseteq> fs \<union> set (prefixes (test_runs_dir proj))"
    by (auto simp: makedirs_def prefixes_snoc)
  from 1 2 3 show ?thesis by simp
qed

lemma attempted_mutants_Suc:
  "attempted_mutants L code g (Suc K) =
     attempted_mutants L code g K @ (if is_noop code (mutant_text L code g K) then [] else [K])"
  by (simp add: attempted_mutants_def)

lemma detected_mutants_Suc:
  "detected_mutants L code g fw ios (Suc K) =
     detected_mutants L code g fw ios K @
       (if \<not> is_noop code (mutant_text L code g K) \<and> exited_non_zero fw (ios K) then [K] else [])"
  by (simp add: detected_mutants_def attempted_mutants_Suc)

lemma fault_injection_loop:
  "rng (foldl (fault_injection L proj code tests fw ios) st [0..<K]) = rng_after L code (rng st) K \<and>
   total_faults_attempted (foldl (fault_injection L proj code tests fw ios) st [0..<K]) =
     total_faults_attempted st + length (attempted_mutants L code (rng st) K) \<and>
   detected_bugs (foldl (fault_injection L proj code tests fw ios) st [0..<K]) =
     detected_bugs st + length (detected_mutants L code (rng st) fw ios K) \<and>
   step1_metrics (report (foldl (fault_injection L proj code tests fw ios) st [0..<K])) =
     step1_metrics (report st) \<and>
   files (foldl (fault_injection L proj code tests fw ios) st [0..<K]) \<subseteq>
     files st \<union> set (prefixes (test_runs_dir proj)) \<and>
   list_all (\<lambda>i. test_runs_dir proj @ [uuid4 (ios i)] \<notin>
                files (foldl (fault_injection L proj code tests fw ios) st [0..<K]))
     (attempted_mutants L code (rng st) K)"
proof (induction K)
  case 0
  show ?case by (simp add: attempted_mutants_def detected_mutants_def)
next
  case (Suc K)
  let ?stK = "foldl (fault_injection L proj code tests fw ios) st [0..<K]"
  let ?st' = "fault_injection L proj code tests fw ios ?stK K"
  have fold: "foldl (fault_injection L proj code tests fw ios) st [0..<Suc K] = ?st'"
    by simp
  have rngK: "rng ?stK = rng_after L code (rng st) K" using Suc.IH by simp
  have t: "fst (inject_simple_fault L code 1 (rng ?stK)) = mutant_text L code (rng st) K"
    by (simp add: mutant_text_def rngK)
  note eff = fault_injection_effect [where ios = ios and i = K, OF t [symmetric] refl,
      of proj tests fw]
  have 1: "rng ?st' = rng_after L code (rng st) (Suc K)"
    using eff rngK by simp
  have 2: "total_faults_attempted ?st' =
      total_faults_attempted st + length (attempted_mutants L code (rng st) (Suc K))"
    using eff Suc.IH by (simp add: attempted_mutants_Suc)
  have 3: "detected_bugs ?st' =
      detected_bugs st + length (detected_mutants L code (rng st) fw ios (Suc K))"
    using eff Suc.IH by (simp add: detected_mutants_Suc)
  have 4: "step1_metrics (report ?st') = step1_metrics (report st)"
    using eff Suc.IH by simp
  have sub: "files ?st' \<subseteq> files ?stK \<union> set (prefixes (test_runs_dir proj))"
    using eff by simp
  have 5: "files ?st' \<subseteq> files st \<union> set (prefixes (test_runs_dir proj))"
    using sub Suc.IH by blast
  have old: "list_all (\<lambda>i. test_runs_dir proj @ [uuid4 (ios i)] \<notin> files ?st')
      (attempted_mutants L code (rng st) K)"
  proof -
    have "list_all (\<lambda>i. test_runs_dir proj @ [uuid4 (ios i)] \<notin> files ?stK)
      (attempted_mutants L code (rng st) K)" using Suc.IH by simp
    then show ?thesis
      using sub not_prefix_snoc [of "test_runs_dir proj"]
      by (auto simp: list_all_iff)
  qed
  have new: "is_noop code (mutant_text L code (rng st) K) \<or>
      test_runs_dir proj @ [uuid4 (ios K)] \<notin> files ?st'"
    using eff by simp
  have 6: "list_all (\<lambda>i. test_runs_dir proj @ [uuid4 (ios i)] \<notin> files ?st')
      (attempted_mutants L code (rng st) (Suc K))"
    using old new by (auto simp: attempted_mutants_Suc)
  from 1 2 3 4 5 6 show ?case unfolding fold by simp
qed

lemma gather_metrics_facts:
  fixes w :: "filesystem \<times> 'g"
  assumes G: "G = gather_metrics L proj code tests spec K io ios w"
  shows "(false_positives_detected (report G) \<and> test_pass_rate_correct_function (report G) = 0 \<or>
          \<not> false_positives_detected (report G) \<and>
            (test_pass_rate_correct_function (report G) = 0 \<or>
             test_pass_rate_correct_function (report G) = 100)) \<and>
         0 \<le> code_coverage_percentage (report G) \<and> code_coverage_percentage (report G) \<le> 100 \<and>
         bug_detection_rate (report G) =
           (if attempted_mutants L code (snd w) (nat K) = [] then 0
            else real (length (detected_mutants L code (snd w) (framework_of spec) ios (nat K))) /
                 real (length (attempted_mutants L code (snd w) (nat K))) * 100) \<and>
         test_runs_dir proj @ [uuid4 io] \<notin> files G \<and>
         list_all (\<lambda>i. test_runs_dir proj @ [uuid4 (ios i)] \<notin> files G)
           (attempted_mutants L code (snd w) (nat K))"
proof -
  obtain r fs where c: "evaluate_correct_function proj code tests (framework_of spec) io
      initial_results (fst w) = (r, fs)"
    by (cases "evaluate_correct_function proj code tests (framework_of spec) io
      initial_results (fst w)")
  let ?init = "\<lparr> report = r, detected_bugs = 0, total_faults_attempted = 0,
                 files = fs, rng = snd w \<rparr>"
  let ?st = "foldl (fault_injection L proj code tests (framework_of spec) ios) ?init [0..<nat K]"
  let ?rate = "if 0 < total_faults_attempted ?st
               then real (detected_bugs ?st) / real (total_faults_attempted ?st) * 100 else 0.0"
  have Geq: "G = ?st\<lparr>report := (report ?st)\<lparr>bug_detection_rate := ?rate\<rparr>\<rparr>"
    using G c by (simp add: gather_metrics_def Let_def)
  note e = evaluate_correct_function_effect [OF c]
  note l = fault_injection_loop [where L = L and proj = proj and code = code and tests = tests
      and fw = "framework_of spec" and ios = ios and st = ?init and K = "nat K"]
  have m: "step1_metrics (report G) = step1_metrics r"
    using l Geq by (simp add: step1_metrics_def)
  have 1: "(false_positives_detected (report G) \<and> test_pass_rate_correct_function (report G) = 0 \<or>
          \<not> false_positives_detected (report G) \<and>
            (test_pass_rate_correct_function (report G) = 0 \<or>
             test_pass_rate_correct_function (report G) = 100)) \<and>
         0 \<le> code_coverage_percentage (report G) \<and> code_coverage_percentage (report G) \<le> 100"
    using e m by (simp add: step1_metrics_def)
  have tot: "total_faults_attempted ?st = length (attempted_mutants L code (snd w) (nat K))"
    and det: "detected_bugs ?st = length (detected_mutants L code (snd w) (framework_of spec) ios (nat K))"
    using l by simp_all
  have 2: "bug_detection_rate (report G) =
           (if attempted_mutants L code (snd w) (nat K) = [] then 0
            else real (length (detected_mutants L code (snd w) (framework_of spec) ios (nat K))) /
                 real (length (attempted_mutants L code (snd w) (nat K))) * 100)"
    unfolding Geq using tot det by simp
  have fG: "files G = files ?st" unfolding Geq by simp
  have sub: "files ?st \<subseteq> fs \<union> set (prefixes (test_runs_dir proj))"
    using l by simp
  have 3: "test_runs_dir proj @ [uuid4 io] \<notin> files G"
    using sub e not_prefix_snoc [of "test_runs_dir proj" "uuid4 io"] unfolding fG by blast
  have 4: "list_all (\<lambda>i. test_runs_dir proj @ [uuid4 (ios i)] \<notin> files G)
           (attempted_mutants L code (snd w) (nat K))"
    using l unfolding fG by simp
  from 1 2 3 4 show ?thesis by simp
qed

lemma correct_function_body_false_positive:
  assumes "correct_function_body env code tests fw io initial_results fs = (raised, r, fs')"
  shows "false_positives_detected r = exited_non_zero fw io"
proof -
  let ?sf = "[''target_function.py'']" and ?tf = "[''test_target_function.py'']"
  obtain s fs1 where su: "setup_environment env code tests ?sf ?tf (write_errors io) fs = (s, fs1)"
    by (cases "setup_environment env code tests ?sf ?tf (write_errors io) fs")
  consider (fail) e where "setup_raises io" "s = Inl e"
    | (ok) sp tp where "\<not> setup_raises io"
        "s = Inr (env\<lparr>source_file_path := Some sp, test_file_path := Some tp\<rparr>)"
    using setup_environment_io [of io env code tests ?sf ?tf fs] su by auto
  then show ?thesis
  proof cases
    case fail
    with assms su show ?thesis
      by (auto simp: correct_function_body_def exited_non_zero_def exit_status_def
            initial_results_def)
  next
    case ok
    let ?env = "env\<lparr>source_file_path := Some sp, test_file_path := Some tp\<rparr>"
    have ex: "(case run_tests ?env fw (test_proc io) of Inl e \<Rightarrow> None
                | Inr (rc, out, err) \<Rightarrow> Some rc) = exit_status fw io"
      using run_tests_exit_status [of ?env tp io fw] ok by simp
    show ?thesis
    proof (cases "run_tests ?env fw (test_proc io)")
      case (Inl e)
      with ex have "exit_status fw io = None" by simp
      with assms su ok Inl show ?thesis
        by (auto simp: correct_function_body_def exited_non_zero_def initial_results_def)
    next
      case (Inr res)
      obtain rc out err where res: "res = (rc, out, err)" by (cases res)
      with ex Inr have es: "exit_status fw io = Some rc" by simp
      show ?thesis
      proof (cases "get_coverage ?env io")
        case (Inl e)
        with assms su ok Inr res es show ?thesis
          by (cases "rc = 0")
             (auto simp: correct_function_body_def exited_non_zero_def initial_results_def Let_def)
      next
        case cov: (Inr cr)
        obtain c rep where cr: "cr = (c, rep)" by (cases cr)
        with assms su ok Inr res es cov show ?thesis
          by (cases "rc = 0")
             (auto simp: correct_function_body_def exited_non_zero_def initial_results_def Let_def)
      qed
    qed
  qed
qed

lemma gather_metrics_false_positive:
  "false_positives_detected (report (gather_metrics L proj code tests spec K io ios w)) =
     exited_non_zero (framework_of spec) io"
proof -
  obtain env fs0 where te:
    "TestingEnvironment (test_runs_dir proj) (uuid4 io) (fst w) = (env, fs0)"
    by (cases "TestingEnvironment (test_runs_dir proj) (uuid4 io) (fst w)")
  obtain raised r1 fs1 where body:
    "correct_function_body env code tests (framework_of spec) io initial_results fs0 = (raised, r1, fs1)"
    by (cases "correct_function_body env code tests (framework_of spec) io initial_results fs0")
  let ?r = "case raised of None \<Rightarrow> r1 | Some e \<Rightarrow>
              r1\<lparr>test_suite_error_output := test_suite_error_output r1 @ ''Error: '' @ str_exn e @ newline\<rparr>"
  have c: "evaluate_correct_function proj code tests (framework_of spec) io initial_results (fst w)
             = (?r, cleanup env fs1)"
    using te body by (simp add: evaluate_correct_function_def)
  let ?init = "\<lparr> report = ?r, detected_bugs = 0, total_faults_attempted = 0,
                 files = cleanup env fs1, rng = snd w \<rparr>"
  note l = fault_injection_loop [where L = L and proj = proj and code = code and tests = tests
      and fw = "framework_of spec" and ios = ios and st = ?init and K = "nat K"]
  have "step1_metrics (report (gather_metrics L proj code tests spec K io ios w)) = step1_metrics ?r"
    using l c by (simp add: gather_metrics_def Let_def step1_metrics_def)
  then have "false_positives_detected (report (gather_metrics L proj code tests spec K io ios w))
      = false_positives_detected ?r"
    by (simp add: step1_metrics_def)
  also have "\<dots> = false_positives_detected r1" by (cases raised) simp_all
  also have "\<dots> = exited_non_zero (framework_of spec) io"
    by (rule correct_function_body_false_positive [OF body])
  finally show ?thesis .
qed

lemma calculate_total_score_failed:
  assumes "test_pass_rate_correct_function r = 0" and "0 \<le> code_coverage_percentage r"
  shows "calculate_total_score r m = Inr (r\<lparr>total_score := 0\<rparr>)"
proof -
  have "max 0 (- 100 - code_coverage_percentage r / 10) = 0"
    and "max 0 (- (code_coverage_percentage r / 10)) = 0"
    using assms(2) by simp_all
  then show ?thesis
    using assms by (simp add: calculate_total_score_def Let_def)
qed

lemma mutant_text_first:
  "mutant_text L code g i = fst (inject_simple_fault L code 1 g)"
  unfolding mutant_text_def by (rule inject_simple_fault_seed_independent)

lemma attempted_mutants_all_or_none:
  "attempted_mutants L code g K =
     (if is_noop code (fst (inject_simple_fault L code 1 g)) then [] else [0..<K])"
  by (simp add: attempted_mutants_def mutant_text_first)

lemma evaluate_correct_function_removes:
  "test_runs_dir proj @ [uuid4 io] \<notin> snd (evaluate_correct_function proj code tests fw io r fs)"
proof -
  obtain env fs0 where te: "TestingEnvironment (test_runs_dir proj) (uuid4 io) fs = (env, fs0)"
    by (cases "TestingEnvironment (test_runs_dir proj) (uuid4 io) fs")
  obtain raised r1 fs1 where body:
    "correct_function_body env code tests fw io r fs0 = (raised, r1, fs1)"
    by (cases "correct_function_body env code tests fw io r fs0")
  have "snd (evaluate_correct_function proj code tests fw io r fs) = cleanup env fs1"
    using te body by (simp add: evaluate_correct_function_def)
  then show ?thesis
    using run_dir_TestingEnvironment [OF te] cleanup_removes [of env fs1] by simp
qed

lemma returned_report_rate:
  assumes "evaluate_tests L proj code tests spec K io ios w = (Inr r, w')"
  shows "bug_detection_rate r =
           (if attempted_mutants L code (snd w) (nat K) = [] then 0
            else real (length (detected_mutants L code (snd w) (framework_of spec) ios (nat K))) /
                 real (length (attempted_mutants L code (snd w) (nat K))) * 100)"
proof -
  let ?G = "gather_metrics L proj code tests spec K io ios w"
  have "bug_detection_rate r = bug_detection_rate (report ?G)"
    using assms
    by (auto simp: evaluate_tests_def calculate_total_score_def Let_def
          split: sum.splits if_splits)
  moreover note gather_metrics_facts [OF refl, of L proj code tests spec K io ios w]
  ultimately show ?thesis by simp
qed

lemma run_tests_supported:
  assumes "test_file_path self = Some tf" and "supported_framework name"
  shows "\<exists>rc out err. run_tests self (YStr name) proc = Inr (rc, out, err) \<and>
           (case proc of Completed c a b \<Rightarrow> rc = c \<and> out = a \<and> err = b
            | Raised e \<Rightarrow> rc = 1 \<and> out = [] \<and> err \<noteq> [])"
  using assms
  by (cases proc) (auto simp: run_tests_def supported_framework_def split: exn.splits)

lemma run_tests_unsupported:
  assumes "\<not> supported_framework name"
  shows "run_tests self (YStr name) proc = Inl (ValueError (''Unsupported test framework: '' @ name))"
  using assms by (simp add: run_tests_def supported_framework_def)

lemma get_coverage_completed:
  assumes "source_file_path self = Some sf"
    and "erase_proc io = Completed c0 o0 e0"
    and "coverage_proc io = Completed c1 o1 e1"
    and "report_proc io = Completed c2 o2 e2"
  shows "\<exists>pct rep. get_coverage self io = Inr (pct, rep) \<and>
           ((c1 \<noteq> 0 \<and> \<not> sublist ''Coverage.py warning'' e1) \<or> c2 \<noteq> 0 \<or>
              malformed_report (report_file io) \<longrightarrow> pct = 0 \<and> rep \<noteq> [])"
  using assms
  by (auto simp: get_coverage_def malformed_report_def Let_def
        split: option.splits coverage_json.splits)

lemma unsupported_framework_absorbed:
  assumes "\<not> supported_framework name" and "\<not> setup_raises io"
  shows "test_suite_error_output
           (fst (evaluate_correct_function proj code tests (YStr name) io initial_results fs)) =
         ''Error: Unsupported test framework: '' @ name @ newline"
proof -
  obtain env fs0 where te: "TestingEnvironment (test_runs_dir proj) (uuid4 io) fs = (env, fs0)"
    by (cases "TestingEnvironment (test_runs_dir proj) (uuid4 io) fs")
  let ?sf = "[''target_function.py'']" and ?tf = "[''test_target_function.py'']"
  obtain sp tp fs1 where su: "setup_environment env code tests ?sf ?tf (write_errors io) fs0 =
      (Inr (env\<lparr>source_file_path := Some sp, test_file_path := Some tp\<rparr>), fs1)"
    using setup_environment_io [of io env code tests ?sf ?tf fs0] assms(2) by auto
  have "correct_function_body env code tests (YStr name) io initial_results fs0 =
      (Some (ValueError (''Unsupported test framework: '' @ name)), initial_results, fs1)"
    using su run_tests_unsupported [OF assms(1)]
    by (simp add: correct_function_body_def)
  then show ?thesis
    using te by (simp add: evaluate_correct_function_def initial_results_def)
qed

section \<open>Facts about the evolution loop\<close>

lemma save_generation_data_best:
  "current_best_fitness (save_generation_data L self gen tests fitness stat time) =
     current_best_fitness self \<and>
   current_best_tests (save_generation_data L self gen tests fitness stat time) =
     current_best_tests self"
  by (simp add: save_generation_data_def Let_def)

lemma evolution_step_elitist:
  assumes "evolution_step L proj code spec gen io (self, w) = (None, self', w')"
    and "best_total_score self = Some a"
  shows "elitist_step self self' \<and> best_le self self'"
proof (cases "generated_tests io")
  case (Inl e)
  with assms show ?thesis
    by (auto simp: evolution_step_def elitist_step_def best_le_def best_total_score_def
          save_generation_data_best)
next
  case (Inr candidate)
  obtain res w1 where ev: "evaluate_tests L proj code candidate spec 3 (correct_io io)
      (mutated_io io) w = (res, w1)"
    by (cases "evaluate_tests L proj code candidate spec 3 (correct_io io) (mutated_io io) w")
  from assms(2) obtain best where best: "current_best_fitness self = Some best"
    and a: "a = total_score best"
    by (auto simp: best_total_score_def)
  show ?thesis
  proof (cases res)
    case (Inl e)
    with assms Inr ev show ?thesis by (simp add: evolution_step_def)
  next
    case fit: (Inr candidate_fitness)
    show ?thesis
    proof (cases "total_score best < total_score candidate_fitness")
      case True
      with assms Inr ev fit best have
        "self' = save_generation_data L
            (self\<lparr>current_best_tests := Some candidate,
                  current_best_fitness := Some candidate_fitness\<rparr>)
            gen candidate (Some candidate_fitness) ''new_best'' (now io)"
        by (simp add: evolution_step_def Let_def)
      with True best show ?thesis
        by (simp add: elitist_step_def best_le_def best_total_score_def save_generation_data_best)
    next
      case False
      with assms Inr ev fit best have
        "self' = save_generation_data L self gen candidate (Some candidate_fitness)
            ''not_best'' (now io)"
        by (simp add: evolution_step_def Let_def)
      with best show ?thesis
        by (simp add: elitist_step_def best_le_def best_total_score_def save_generation_data_best)
    qed
  qed
qed

lemma best_le_trans: "best_le x y \<Longrightarrow> best_le y z \<Longrightarrow> best_le x z"
  by (auto simp: best_le_def split: option.splits)

lemma best_le_Some: "best_le x y \<Longrightarrow> \<exists>b. best_total_score y = Some b"
  by (auto simp: best_le_def split: option.splits)

lemma evolution_trace_sorted:
  assumes "best_total_score (fst s) = Some a"
  shows "sorted_wrt best_le (fst s # evolution_trace L proj code spec ios gens s) \<and>
         successively elitist_step (fst s # evolution_trace L proj code spec ios gens s)"
  using assms
proof (induction gens arbitrary: s a)
  case Nil
  then show ?case by simp
next
  case (Cons gen gens)
  obtain self w where s: "s = (self, w)" by (cases s)
  obtain raised self' w' where st: "evolution_step L proj code spec gen (ios gen) (self, w) =
      (raised, self', w')"
    by (cases "evolution_step L proj code spec gen (ios gen) (self, w)")
  show ?case
  proof (cases raised)
    case (Some e)
    with s st show ?thesis by simp
  next
    case None
    from Cons.prems s have b: "best_total_score self = Some a" by simp
    from evolution_step_elitist [OF st [unfolded None] b]
    have el: "elitist_step self self'" and le: "best_le self self'" by simp_all
    from best_le_Some [OF le] obtain b' where "best_total_score (fst (self', w')) = Some b'"
      by auto
    from Cons.IH [OF this]
    have ih: "sorted_wrt best_le (self' # evolution_trace L proj code spec ios gens (self', w'))"
      and ih2: "successively elitist_step (self' # evolution_trace L proj code spec ios gens (self', w'))"
      by simp_all
    have tr: "evolution_trace L proj code spec ios (gen # gens) (self, w) =
        self' # evolution_trace L proj code spec ios gens (self', w')"
      using st None by simp
    have "\<forall>y\<in>set (self' # evolution_trace L proj code spec ios gens (self', w')). best_le self y"
      using ih le by (auto intro: best_le_trans)
    with ih ih2 el show ?thesis unfolding s tr by simp
  qed
qed

lemma initial_generation_best:
  assumes "initial_generation L proj code spec io (self, w) = (None, self', w')"
  shows "\<exists>t f. generated_tests io = Inr t \<and>
           evaluate_tests L proj code t spec 3 (correct_io io) (mutated_io io) w = (Inr f, w') \<and>
           current_best_tests self' = Some t \<and> current_best_fitness self' = Some f"
  using assms
  by (auto simp: initial_generation_def Let_def save_generation_data_best
        split: sum.splits prod.splits)

lemma evolve_trace_sorted:
  "sorted_wrt best_le (evolve_trace L proj code spec mx ios s) \<and>
   successively elitist_step (evolve_trace L proj code spec mx ios s) \<and>
   list_all (\<lambda>x. best_le x x) (evolve_trace L proj code spec mx ios s)"
proof -
  obtain self w where s: "s = (self, w)" by (cases s)
  obtain raised self' w' where ini: "initial_generation L proj code spec (ios 0) (self, w) =
      (raised, self', w')"
    by (cases "initial_generation L proj code spec (ios 0) (self, w)")
  show ?thesis
  proof (cases raised)
    case (Some e)
    with s ini show ?thesis by (simp add: evolve_trace_def)
  next
    case None
    from initial_generation_best [OF ini [unfolded None]]
    obtain f where "current_best_fitness self' = Some f" by auto
    then have b: "best_total_score (fst (self', w')) = Some (total_score f)"
      by (simp add: best_total_score_def)
    let ?tr = "self' # evolution_trace L proj code spec ios [1..<nat (mx + 1)] (self', w')"
    have tr: "evolve_trace L proj code spec mx ios s = ?tr"
      using s ini None by (simp add: evolve_trace_def)
    from evolution_trace_sorted [OF b, of L proj code spec ios "[1..<nat (mx + 1)]"]
    have so: "sorted_wrt best_le ?tr" and su: "successively elitist_step ?tr" by simp_all
    have "best_le self' self'" using b by (simp add: best_le_def)
    moreover have "best_le y y" if "y \<in> set (evolution_trace L proj code spec ios [1..<nat (mx + 1)] (self', w'))" for y
    proof -
      from so that have "best_le self' y" by simp
      from best_le_Some [OF this] show ?thesis by (auto simp: best_le_def)
    qed
    ultimately have "list_all (\<lambda>x. best_le x x) ?tr" by (simp add: list_all_iff)
    with so su show ?thesis unfolding tr by simp
  qed
qed

lemma successively_nth:
  "successively P xs \<Longrightarrow> Suc k < length xs \<Longrightarrow> P (xs ! k) (xs ! Suc k)"
proof (induction P xs arbitrary: k rule: successively.induct)
  case (3 P x y xs)
  then show ?case by (cases k) simp_all
qed simp_all

lemma evolution_loop_trace:
  assumes "evolution_loop L proj code spec ios gens s = (None, s')"
  shows "length (evolution_trace L proj code spec ios gens s) = length gens \<and>
         fst s' = last (fst s # evolution_trace L proj code spec ios gens s)"
  using assms
proof (induction gens arbitrary: s)
  case Nil
  then show ?case by simp
next
  case (Cons gen gens)
  obtain raised s1 where st: "evolution_step L proj code spec gen (ios gen) s = (raised, s1)"
    by (cases "evolution_step L proj code spec gen (ios gen) s")
  show ?case
  proof (cases raised)
    case (Some e)
    with Cons.prems st show ?thesis by simp
  next
    case None
    with Cons.prems st have "evolution_loop L proj code spec ios gens s1 = (None, s')" by simp
    from Cons.IH [OF this] st None show ?thesis by simp
  qed
qed

lemma evolve_tests_trace:
  assumes "evolve_tests L proj code spec mx ios s = (None, s')"
  shows "length (evolve_trace L proj code spec mx ios s) = Suc (length [1..<nat (mx + 1)]) \<and>
         fst s' = last (evolve_trace L proj code spec mx ios s)"
proof -
  obtain raised s1 where ini: "initial_generation L proj code spec (ios 0) s = (raised, s1)"
    by (cases "initial_generation L proj code spec (ios 0) s")
  show ?thesis
  proof (cases raised)
    case (Some e)
    with assms ini show ?thesis by (simp add: evolve_tests_def)
  next
    case None
    with assms ini have "evolution_loop L proj code spec ios [1..<nat (mx + 1)] s1 = (None, s')"
      by (simp add: evolve_tests_def)
    from evolution_loop_trace [OF this] ini None show ?thesis
      by (simp add: evolve_trace_def)
  qed
qed

section \<open>Properties of the scoring step\<close>

text \<open>
  Claim C2. When the coverage percentage and the bug-detection rate lie in [0, 100], the
  pass rate is 0 or 100 and the coverage target is a number that is not negative, the
  scoring step returns a report (it does not raise) whose total score lies in [0, 100].
\<close>

theorem total_score_in_range:
  assumes "0 \<le> code_coverage_percentage r" and "code_coverage_percentage r \<le> 100"
    and "0 \<le> bug_detection_rate r" and "bug_detection_rate r \<le> 100"
    and "test_pass_rate_correct_function r = 0 \<or> test_pass_rate_correct_function r = 100"
    and "0 \<le> m"
  shows "\<exists>r'. calculate_total_score r (YNum m) = Inr r' \<and>
           0 \<le> total_score r' \<and> total_score r' \<le> 100"
proof (cases "test_pass_rate_correct_function r = 100")
  case True
  with assms show ?thesis
    by (auto simp add: calculate_total_score_def float_lt_def Let_def field_simps)
next
  case False
  with assms have "test_pass_rate_correct_function r = 0" by simp
  with assms show ?thesis
    by (simp add: calculate_total_score_def float_lt_def Let_def)
qed

theorem total_score_in_range_witness:
  "\<exists>r'. calculate_total_score
          (initial_results\<lparr>test_pass_rate_correct_function := 100,
             code_coverage_percentage := 70, bug_detection_rate := 100\<rparr>) (YNum 90) = Inr r' \<and>
        0 \<le> total_score r' \<and> total_score r' \<le> 100"
  using total_score_in_range
    [of "initial_results\<lparr>test_pass_rate_correct_function := 100,
           code_coverage_percentage := 70, bug_detection_rate := 100\<rparr>" 90]
  by (simp add: initial_results_def)

text \<open>
  Claim C1. If the run of the suite against the correct function exits with a status
  other than 0, the evaluation returns a report (it does not raise), the report has the
  false-positive flag set and its total score is 0; and every report that the evaluation
  returns with the flag set has total score 0. This holds for every coverage outcome and
  every outcome of the mutant runs: they are arbitrary here.
\<close>

theorem false_positive_scores_zero:
  "(exited_non_zero (framework_of spec) io \<longrightarrow>
      (\<exists>r w'. evaluate_tests L proj code tests spec K io ios w = (Inr r, w') \<and>
         false_positives_detected r \<and> total_score r = 0)) \<and>
   (\<forall>r w'. evaluate_tests L proj code tests spec K io ios w = (Inr r, w') \<and>
         false_positives_detected r \<longrightarrow> total_score r = 0)"
proof -
  let ?G = "gather_metrics L proj code tests spec K io ios w"
  note f = gather_metrics_facts [OF refl, of L proj code tests spec K io ios w]
  have fp: "false_positives_detected (report ?G) = exited_non_zero (framework_of spec) io"
    by (rule gather_metrics_false_positive)
  have zero: "calculate_total_score (report ?G) (min_coverage_of spec) =
                Inr ((report ?G)\<lparr>total_score := 0\<rparr>)"
    if "false_positives_detected (report ?G)"
    using that f by (intro calculate_total_score_failed) auto
  have keep: "false_positives_detected r = false_positives_detected (report ?G)"
    if "evaluate_tests L proj code tests spec K io ios w = (Inr r, w')" for r w'
    using that
    by (auto simp: evaluate_tests_def calculate_total_score_def Let_def
          split: sum.splits if_splits)
  show ?thesis
  proof (intro conjI impI allI)
    assume "exited_non_zero (framework_of spec) io"
    with fp have "false_positives_detected (report ?G)" by simp
    from zero [OF this] show "\<exists>r w'. evaluate_tests L proj code tests spec K io ios w = (Inr r, w') \<and>
         false_positives_detected r \<and> total_score r = 0"
      using \<open>false_positives_detected (report ?G)\<close> by (simp add: evaluate_tests_def Let_def)
  next
    fix r w'
    assume a: "evaluate_tests L proj code tests spec K io ios w = (Inr r, w') \<and>
         false_positives_detected r"
    with keep have "false_positives_detected (report ?G)" by simp
    from zero [OF this] a show "total_score r = 0"
      by (auto simp: evaluate_tests_def Let_def)
  qed
qed

theorem false_positive_scores_zero_witness:
  "exited_non_zero (framework_of (example_spec None)) (example_io 1) \<and>
   (\<exists>r w'. evaluate_tests example_lib [''proj''] ''return a + b'' ''tests'' (example_spec None) 3
              (example_io 1) (\<lambda>i. example_mutant_io 1 i) ({}, 0) = (Inr r, w') \<and>
            false_positives_detected r \<and> total_score r = 0)"
proof -
  have h: "exited_non_zero (framework_of (example_spec None)) (example_io 1)"
    by code_simp
  from false_positive_scores_zero [where spec = "example_spec None" and io = "example_io 1"
      and L = example_lib and proj = "[''proj'']" and code = "''return a + b''"
      and tests = "''tests''" and K = 3 and ios = "\<lambda>i. example_mutant_io 1 i" and w = "({}, 0)"] h
  show ?thesis by blast
qed

section \<open>Properties of the evaluation\<close>

text \<open>
  Claim C5. In a report that the evaluation returns, the bug detection rate is the number
  of attempted mutants whose run exited with a status other than 0, divided by the number
  of attempted mutants, times 100, and 0 when no mutant was attempted. The attempted
  mutants are the iterations whose mutated text differs from the original after
  stripping; in particular an iteration whose text equals the original is not among them.
\<close>

theorem bug_detection_rate_excludes_noops:
  assumes "evaluate_tests L proj code tests spec K io ios w = (Inr r, w')"
  shows "bug_detection_rate r =
           (if attempted_mutants L code (snd w) (nat K) = [] then 0
            else real (length (detected_mutants L code (snd w) (framework_of spec) ios (nat K))) /
                 real (length (attempted_mutants L code (snd w) (nat K))) * 100) \<and>
         attempted_mutants L code (snd w) (nat K) =
           filter (\<lambda>i. strip (mutant_text L code (snd w) i) \<noteq> strip code) [0..<nat K] \<and>
         (\<forall>i. mutant_text L code (snd w) i = code \<longrightarrow>
              i \<notin> set (attempted_mutants L code (snd w) (nat K)))"
  using returned_report_rate [OF assms]
  by (simp add: attempted_mutants_def is_noop_def)

theorem bug_detection_rate_excludes_noops_witness:
  "\<exists>r w'. evaluate_tests example_lib [''proj''] ''return a + b'' ''tests'' (example_spec None) 3
      (example_io 0) (\<lambda>i. example_mutant_io (if i = 0 then 1 else 0) i) ({}, 0) = (Inr r, w') \<and>
    bug_detection_rate r = 100 / 3"
proof -
  let ?ios = "\<lambda>i. example_mutant_io (if i = 0 then 1 else 0) i"
  let ?e = "evaluate_tests example_lib [''proj''] ''return a + b'' ''tests'' (example_spec None) 3
      (example_io 0) ?ios ({}, 0)"
  have "\<not> isl (fst ?e)" by code_simp
  then obtain r where "fst ?e = Inr r" by (cases "fst ?e") simp_all
  then have e: "?e = (Inr r, snd ?e)" by (cases ?e) simp
  have a: "attempted_mutants example_lib ''return a + b'' 0 3 = [0, 1, 2]"
    by code_simp
  have d: "detected_mutants example_lib ''return a + b'' 0 (framework_of (example_spec None)) ?ios 3 = [0]"
    by code_simp
  from bug_detection_rate_excludes_noops [OF e] a d have "bug_detection_rate r = 100 / 3"
    by simp
  with e show ?thesis by blast
qed

text \<open>
  Claim C9. The working directory of a sandbox does not exist after \<open>cleanup\<close>; it does
  not exist after step 1 of the evaluation nor after an iteration of the fault-injection
  loop that opened a sandbox, whatever happened inside: every write of the set-up, the
  test run and the coverage measurement may raise, since the sandbox's answers are
  arbitrary; and at the end of \<open>evaluate_tests\<close>, on the path that returns a report as on
  the path that raises, none of the working directories of its sandboxes exists.
\<close>

theorem working_area_removed:
  "run_dir self \<notin> cleanup self fs \<and>
   test_runs_dir proj @ [uuid4 io] \<notin>
     snd (evaluate_correct_function proj code tests fw io r fs) \<and>
   (is_noop code (fst (inject_simple_fault L code 1 (rng st))) \<or>
    test_runs_dir proj @ [uuid4 (ios i)] \<notin> files (fault_injection L proj code tests fw ios st i)) \<and>
   test_runs_dir proj @ [uuid4 io] \<notin>
     fst (snd (evaluate_tests L proj code tests spec K io ios w)) \<and>
   list_all (\<lambda>i. test_runs_dir proj @ [uuid4 (ios i)] \<notin>
                fst (snd (evaluate_tests L proj code tests spec K io ios w)))
     (attempted_mutants L code (snd w) (nat K))"
proof -
  have 1: "run_dir self \<notin> cleanup self fs" by (rule cleanup_removes)
  have 2: "test_runs_dir proj @ [uuid4 io] \<notin>
     snd (evaluate_correct_function proj code tests fw io r fs)"
    by (rule evaluate_correct_function_removes)
  have 3: "is_noop code (fst (inject_simple_fault L code 1 (rng st))) \<or>
    test_runs_dir proj @ [uuid4 (ios i)] \<notin> files (fault_injection L proj code tests fw ios st i)"
    using fault_injection_effect [where ios = ios and i = i and L = L and code = code and st = st
        and proj = proj and tests = tests and fw = fw, OF refl refl]
    by simp
  have f: "fst (snd (evaluate_tests L proj code tests spec K io ios w)) =
      files (gather_metrics L proj code tests spec K io ios w)"
    by (simp add: evaluate_tests_def Let_def)
  note g = gather_metrics_facts [OF refl, of L proj code tests spec K io ios w]
  from 1 2 3 g show ?thesis unfolding f by simp
qed

theorem working_area_removed_witness:
  "[''proj'', ''output'', ''test_runs'', ''v''] \<notin>
     fst (snd (evaluate_tests example_lib [''proj''] ''return a + b'' ''tests'' (example_spec None) 3
       failing_io (\<lambda>i. timeout_io) ({}, 0))) \<and>
   attempted_mutants example_lib ''return a + b'' 0 3 = [0, 1, 2] \<and>
   [''proj'', ''output'', ''test_runs'', ''w''] \<notin>
     fst (snd (evaluate_tests example_lib [''proj''] ''return a + b'' ''tests'' (example_spec None) 3
       failing_io (\<lambda>i. timeout_io) ({}, 0)))"
proof -
  have a: "attempted_mutants example_lib ''return a + b'' 0 3 = [0, 1, 2]"
    by code_simp
  have u: "uuid4 failing_io = ''v''" "uuid4 timeout_io = ''w''"
    by (simp_all add: failing_io_def timeout_io_def)
  from working_area_removed [where proj = "[''proj'']" and io = failing_io
      and ios = "\<lambda>i. timeout_io" and L = example_lib and code = "''return a + b''"
      and tests = "''tests''" and spec = "example_spec None" and K = 3 and w = "({}, 0)"]
  show ?thesis using a u by (simp add: test_runs_dir_def)
qed

text \<open>
  Claim C10, as amended. Within one call of the evaluation, every iteration of the
  fault-injection loop gets the same mutated text, the one the first call produces, so
  either no iteration is attempted or all of them are; and when the runs of the suite
  against the mutants agree (all exit with a status other than 0, or none does), the bug
  detection rate of the returned report is exactly 0 or exactly 100.
\<close>

theorem fault_injections_repeat_one_mutant:
  assumes "evaluate_tests L proj code tests spec K io ios w = (Inr r, w')"
  shows "(\<forall>i. mutant_text L code (snd w) i = fst (inject_simple_fault L code 1 (snd w))) \<and>
    (attempted_mutants L code (snd w) (nat K) = [] \<or>
     attempted_mutants L code (snd w) (nat K) = [0..<nat K]) \<and>
    (list_all (\<lambda>i. exited_non_zero (framework_of spec) (ios i)) [0..<nat K] \<or>
     list_all (\<lambda>i. \<not> exited_non_zero (framework_of spec) (ios i)) [0..<nat K]
       \<longrightarrow> bug_detection_rate r = 0 \<or> bug_detection_rate r = 100)"
proof -
  let ?att = "attempted_mutants L code (snd w) (nat K)"
  let ?det = "detected_mutants L code (snd w) (framework_of spec) ios (nat K)"
  have 1: "\<forall>i. mutant_text L code (snd w) i = fst (inject_simple_fault L code 1 (snd w))"
    by (simp add: mutant_text_first)
  have 2: "?att = [] \<or> ?att = [0..<nat K]"
    by (simp add: attempted_mutants_all_or_none)
  note rate = returned_report_rate [OF assms]
  have 3: "bug_detection_rate r = 0 \<or> bug_detection_rate r = 100"
    if agree: "list_all (\<lambda>i. exited_non_zero (framework_of spec) (ios i)) [0..<nat K] \<or>
     list_all (\<lambda>i. \<not> exited_non_zero (framework_of spec) (ios i)) [0..<nat K]"
  proof (cases "?att = []")
    case True
    with rate show ?thesis by simp
  next
    case False
    with 2 have att: "?att = [0..<nat K]" by simp
    from agree show ?thesis
    proof
      assume "list_all (\<lambda>i. exited_non_zero (framework_of spec) (ios i)) [0..<nat K]"
      then have "?det = ?att"
        unfolding detected_mutants_def att by (simp add: list_all_iff)
      with rate False show ?thesis by simp
    next
      assume "list_all (\<lambda>i. \<not> exited_non_zero (framework_of spec) (ios i)) [0..<nat K]"
      then have "?det = []"
        unfolding detected_mutants_def att by (simp add: list_all_iff)
      with rate show ?thesis by simp
    qed
  qed
  from 1 2 3 show ?thesis by blast
qed

theorem fault_injections_repeat_one_mutant_witness:
  "\<exists>r w'. evaluate_tests example_lib [''proj''] ''return a + b'' ''tests'' (example_spec None) 3
      (example_io 0) (\<lambda>i. example_mutant_io 1 i) ({}, 0) = (Inr r, w') \<and>
    mutant_text example_lib ''return a + b'' 0 2 = ''return 0'' \<and>
    attempted_mutants example_lib ''return a + b'' 0 3 = [0, 1, 2] \<and>
    list_all (\<lambda>i. exited_non_zero (framework_of (example_spec None)) (example_mutant_io 1 i))
      [0, 1, 2] \<and>
    bug_detection_rate r = 100"
proof -
  let ?e = "evaluate_tests example_lib [''proj''] ''return a + b'' ''tests'' (example_spec None) 3
      (example_io 0) (\<lambda>i. example_mutant_io 1 i) ({}, 0)"
  have "\<not> isl (fst ?e)" by code_simp
  then obtain r where "fst ?e = Inr r" by (cases "fst ?e") simp_all
  then have e: "?e = (Inr r, snd ?e)" by (cases ?e) simp
  have t: "fst (inject_simple_fault example_lib ''return a + b'' 1 0) = ''return 0''"
    by code_simp
  have n: "\<not> is_noop ''return a + b'' ''return 0''"
    by code_simp
  have 3: "list_all (\<lambda>i. exited_non_zero (framework_of (example_spec None)) (example_mutant_io 1 i))
      [0, 1, 2]"
    by code_simp
  have u: "[0..<nat 3] = [0, 1, 2]" by code_simp
  note c = fault_injections_repeat_one_mutant [OF e]
  from c t have 1: "mutant_text example_lib ''return a + b'' 0 2 = ''return 0''" by simp
  from c t n u have 2: "attempted_mutants example_lib ''return a + b'' 0 3 = [0, 1, 2]"
    by (simp add: attempted_mutants_def)
  from c 3 u have "bug_detection_rate r = 0 \<or> bug_detection_rate r = 100" by simp
  moreover have "bug_detection_rate r \<noteq> 0"
  proof -
    have "detected_mutants example_lib ''return a + b'' 0 (framework_of (example_spec None))
        (\<lambda>i. example_mutant_io 1 i) 3 = [0, 1, 2]"
      by code_simp
    with returned_report_rate [OF e] 2 show ?thesis by simp
  qed
  ultimately have 4: "bug_detection_rate r = 100" by simp
  from e 1 2 3 4 show ?thesis by blast
qed

text \<open>
  Claim C10 as stated fails: the three runs are separate executions in separate
  sandboxes (each with its own source file name), and nothing makes them agree. Here the
  first two runs exit with status 1 and the third with status 0: the rate is two thirds of
  100.
\<close>

theorem intermediate_detection_rate_counterexample:
  "\<exists>r w'. evaluate_tests example_lib [''proj''] ''return a + b'' ''tests'' (example_spec None) 3
      (example_io 0) (\<lambda>i. example_mutant_io (if i = 2 then 0 else 1) i) ({}, 0) = (Inr r, w') \<and>
    bug_detection_rate r = 200 / 3 \<and> bug_detection_rate r \<noteq> 0 \<and> bug_detection_rate r \<noteq> 100"
proof -
  let ?ios = "\<lambda>i. example_mutant_io (if i = 2 then 0 else 1) i"
  let ?e = "evaluate_tests example_lib [''proj''] ''return a + b'' ''tests'' (example_spec None) 3
      (example_io 0) ?ios ({}, 0)"
  have "\<not> isl (fst ?e)" by code_simp
  then obtain r where "fst ?e = Inr r" by (cases "fst ?e") simp_all
  then have e: "?e = (Inr r, snd ?e)" by (cases ?e) simp
  have a: "attempted_mutants example_lib ''return a + b'' 0 3 = [0, 1, 2]"
    by code_simp
  have d: "detected_mutants example_lib ''return a + b'' 0 (framework_of (example_spec None)) ?ios 3
      = [0, 1]"
    by code_simp
  from returned_report_rate [OF e] a d have v: "bug_detection_rate r = 200 / 3" by simp
  then have "bug_detection_rate r \<noteq> 0" and "bug_detection_rate r \<noteq> 100" by simp_all
  with e v show ?thesis by blast
qed

section \<open>Properties of the fault injector\<close>

text \<open>
  Claim C4. Two calls of \<open>inject_simple_fault\<close> with the same source text and the same
  number of faults return the same mutated text, whatever states the module-wide random
  generator is in when they are made: the text depends on the arguments alone.
\<close>

theorem inject_simple_fault_deterministic:
  "fst (inject_simple_fault L code num_faults g1) = fst (inject_simple_fault L code num_faults g2)"
  by (rule inject_simple_fault_seed_independent)

theorem inject_simple_fault_deterministic_witness:
  "fst (inject_simple_fault example_lib ''return a + b'' 1 3) = ''return 0'' \<and>
   fst (inject_simple_fault example_lib ''return a + b'' 1 8) = ''return 0''"
proof -
  have "fst (inject_simple_fault example_lib ''return a + b'' 1 3) = ''return 0''"
    by code_simp
  with inject_simple_fault_deterministic [of example_lib "''return a + b''" 1 3 8]
  show ?thesis by simp
qed

text \<open>
  Claim C8, as amended. When the parser rejects the source text, the body of the \<open>try\<close>
  raises the parser's exception, the handler of \<open>inject_simple_fault\<close> swallows it and the
  function returns the text it was given (the generator untouched); the evaluation loop
  then sees a no-op mutant and skips it.
\<close>

theorem syntax_error_returns_original:
  assumes "ast_parse L code = Inl e"
  shows "try_inject_simple_fault L code num_faults g = (Inl e, g) \<and>
         inject_simple_fault L code num_faults g = (code, g) \<and>
         is_noop code (fst (inject_simple_fault L code num_faults g))"
  using assms
  by (simp add: inject_simple_fault_parse_error try_inject_simple_fault_def is_noop_def)

theorem syntax_error_returns_original_witness:
  "ast_parse example_lib ''def f(:'' = Inl (SyntaxError ''invalid syntax'') \<and>
   try_inject_simple_fault example_lib ''def f(:'' 1 5 = (Inl (SyntaxError ''invalid syntax''), 5) \<and>
   inject_simple_fault example_lib ''def f(:'' 1 5 = (''def f(:'', 5) \<and>
   is_noop ''def f(:'' (fst (inject_simple_fault example_lib ''def f(:'' 1 5))"
proof -
  have p: "ast_parse example_lib ''def f(:'' = Inl (SyntaxError ''invalid syntax'')"
    by (simp add: example_lib_def example_parse_def)
  from syntax_error_returns_original [OF p, of 1 5] p show ?thesis by blast
qed

text \<open>
  Claim C8 as stated fails: on a text that the parser rejects with a syntax error the
  call does not fail, it returns that text.
\<close>

theorem syntax_error_not_reported_counterexample:
  "ast_parse example_lib ''def f(:'' = Inl (SyntaxError ''invalid syntax'') \<and>
   fst (inject_simple_fault example_lib ''def f(:'' 1 5) = ''def f(:''"
  by (simp add: example_lib_def example_parse_def inject_simple_fault_def
        try_inject_simple_fault_def)

section \<open>Properties of the sandbox\<close>

text \<open>
  Claim C6, as amended. In a sandbox that has been set up: \<open>run_tests\<close> with a supported
  framework never raises, and when the test process could not be run to its end (a
  timeout, a missing executable, any other exception) the result has return code 1, no
  output and a diagnostic text; \<open>run_tests\<close> with an unsupported framework raises
  \<open>ValueError\<close> to its caller, and the evaluation catches it and writes its message into
  the error output of the report; \<open>get_coverage\<close>, when its three external commands run to
  their end, returns 0 percent with a diagnostic text for a failed coverage run, a failed
  report generation and a report that is missing or cannot be read.
\<close>

theorem sandbox_failures_structured:
  assumes "test_file_path self = Some tf" and "source_file_path self = Some sf"
  shows "(supported_framework name \<longrightarrow>
            (\<exists>rc out err. run_tests self (YStr name) proc = Inr (rc, out, err) \<and>
               (case proc of Completed c a b \<Rightarrow> rc = c \<and> out = a \<and> err = b
                | Raised e \<Rightarrow> rc = 1 \<and> out = [] \<and> err \<noteq> []))) \<and>
         (\<not> supported_framework name \<longrightarrow>
            run_tests self (YStr name) proc =
              Inl (ValueError (''Unsupported test framework: '' @ name)) \<and>
            (\<not> setup_raises io' \<longrightarrow>
               test_suite_error_output
                 (fst (evaluate_correct_function proj code tests (YStr name) io' initial_results fs)) =
               ''Error: Unsupported test framework: '' @ name @ newline)) \<and>
         (erase_proc io = Completed c0 o0 e0 \<and> coverage_proc io = Completed c1 o1 e1 \<and>
          report_proc io = Completed c2 o2 e2 \<longrightarrow>
            (\<exists>pct rep. get_coverage self io = Inr (pct, rep) \<and>
               ((c1 \<noteq> 0 \<and> \<not> sublist ''Coverage.py warning'' e1) \<or> c2 \<noteq> 0 \<or>
                  malformed_report (report_file io) \<longrightarrow> pct = 0 \<and> rep \<noteq> [])))"
  using run_tests_supported [OF assms(1), of name proc]
    run_tests_unsupported [of name self proc]
    unsupported_framework_absorbed [of name io' proj code tests fs]
    get_coverage_completed [OF assms(2), of io c0 o0 e0 c1 o1 e1 c2 o2 e2]
  by blast

theorem sandbox_failures_structured_witness:
  "test_file_path example_environment =
     Some [''proj'', ''output'', ''test_runs'', ''u'', ''test_target_function.py''] \<and>
   source_file_path example_environment =
     Some [''proj'', ''output'', ''test_runs'', ''u'', ''target_function.py''] \<and>
   supported_framework ''PyTest'' \<and>
   (\<exists>rc out err. run_tests example_environment (YStr ''PyTest'')
        (Raised (TimeoutExpired ''timed out after 60 seconds'')) = Inr (rc, out, err) \<and>
      rc = 1 \<and> out = [] \<and> err \<noteq> []) \<and>
   malformed_report (report_file undecodable_io) \<and>
   (\<exists>pct rep. get_coverage example_environment undecodable_io = Inr (pct, rep) \<and>
      pct = 0 \<and> rep \<noteq> [])"
proof -
  have t: "test_file_path example_environment =
     Some [''proj'', ''output'', ''test_runs'', ''u'', ''test_target_function.py'']"
    and s: "source_file_path example_environment =
     Some [''proj'', ''output'', ''test_runs'', ''u'', ''target_function.py'']"
    by (simp_all add: example_environment_def)
  have f: "supported_framework ''PyTest''" by code_simp
  have m: "malformed_report (report_file undecodable_io)" by code_simp
  have p: "erase_proc undecodable_io = Completed 0 [] [] \<and>
           coverage_proc undecodable_io = Completed 0 [] [] \<and>
           report_proc undecodable_io = Completed 0 [] []"
    by (simp add: undecodable_io_def example_io_def)
  note c = sandbox_failures_structured [OF t s, where name = "''PyTest''"
      and proc = "Raised (TimeoutExpired ''timed out after 60 seconds'')"
      and io = undecodable_io and ?c0.0 = 0 and ?o0.0 = "[]" and ?e0.0 = "[]"
      and ?c1.0 = 0 and ?o1.0 = "[]" and ?e1.0 = "[]"
      and ?c2.0 = 0 and ?o2.0 = "[]" and ?e2.0 = "[]"]
  from c f have 1: "\<exists>rc out err. run_tests example_environment (YStr ''PyTest'')
        (Raised (TimeoutExpired ''timed out after 60 seconds'')) = Inr (rc, out, err) \<and>
      rc = 1 \<and> out = [] \<and> err \<noteq> []"
    by simp
  from c p m have 2: "\<exists>pct rep. get_coverage example_environment undecodable_io = Inr (pct, rep) \<and>
      pct = 0 \<and> rep \<noteq> []"
    by blast
  from t s f m 1 2 show ?thesis by blast
qed

text \<open>
  Claim C6 as stated fails: with an unsupported framework \<open>run_tests\<close> raises.
\<close>

theorem unsupported_framework_raises_counterexample:
  "run_tests example_environment (YStr ''nose'') (Completed 0 [] []) =
     Inl (ValueError ''Unsupported test framework: nose'')"
  by code_simp

section \<open>Properties of the evolution loop\<close>

text \<open>
  Claim C3. Along a run, the best total score held after generation \<open>i\<close> is at most the one
  held after any later generation \<open>j\<close>; from one generation to the next the best suite and
  report are kept, or replaced by a report whose total score is strictly greater; the
  suite and the report of generation 0 become the best whatever they are. The states are
  those of the run itself: when \<open>evolve_tests\<close> returns, its final state is the last of them
  and there is one per generation.
\<close>

theorem best_score_non_decreasing:
  assumes "i \<le> j" and "j < length (evolve_trace L proj code spec mx ios s)"
  shows "(\<exists>a b. best_total_score (evolve_trace L proj code spec mx ios s ! i) = Some a \<and>
            best_total_score (evolve_trace L proj code spec mx ios s ! j) = Some b \<and> a \<le> b) \<and>
         (Suc i \<le> j \<longrightarrow>
            elitist_step (evolve_trace L proj code spec mx ios s ! i)
              (evolve_trace L proj code spec mx ios s ! Suc i)) \<and>
         (\<exists>t f w'. generated_tests (ios 0) = Inr t \<and>
            evaluate_tests L proj code t spec 3 (correct_io (ios 0)) (mutated_io (ios 0)) (snd s) =
              (Inr f, w') \<and>
            current_best_tests (evolve_trace L proj code spec mx ios s ! 0) = Some t \<and>
            current_best_fitness (evolve_trace L proj code spec mx ios s ! 0) = Some f) \<and>
         (\<forall>s'. evolve_tests L proj code spec mx ios s = (None, s') \<longrightarrow>
            fst s' = last (evolve_trace L proj code spec mx ios s) \<and>
            length (evolve_trace L proj code spec mx ios s) = Suc (length [1..<nat (mx + 1)]))"
proof -
  let ?tr = "evolve_trace L proj code spec mx ios s"
  note so = evolve_trace_sorted [of L proj code spec mx ios s]
  have le: "best_le (?tr ! i) (?tr ! j)"
  proof (cases "i = j")
    case True
    with so assms(2) show ?thesis by (simp add: list_all_length)
  next
    case False
    with assms have "i < j" by simp
    with so assms(2) show ?thesis by (simp add: sorted_wrt_iff_nth_less)
  qed
  then have 1: "\<exists>a b. best_total_score (?tr ! i) = Some a \<and>
            best_total_score (?tr ! j) = Some b \<and> a \<le> b"
    by (auto simp: best_le_def split: option.splits)
  have 2: "elitist_step (?tr ! i) (?tr ! Suc i)" if "Suc i \<le> j"
  proof (rule successively_nth)
    show "successively elitist_step ?tr" using so by simp
    show "Suc i < length ?tr" using that assms(2) by simp
  qed
  obtain self w where s: "s = (self, w)" by (cases s)
  obtain raised self' w' where ini: "initial_generation L proj code spec (ios 0) (self, w) =
      (raised, self', w')"
    by (cases "initial_generation L proj code spec (ios 0) (self, w)")
  have ne: "?tr \<noteq> []" using assms(2) by auto
  then have "raised = None" using s ini by (cases raised) (simp_all add: evolve_trace_def)
  with ini s have hd: "?tr ! 0 = self'" and ini': "initial_generation L proj code spec (ios 0) (self, w) =
      (None, self', w')"
    by (simp_all add: evolve_trace_def)
  from initial_generation_best [OF ini'] hd s
  have 3: "\<exists>t f w'. generated_tests (ios 0) = Inr t \<and>
            evaluate_tests L proj code t spec 3 (correct_io (ios 0)) (mutated_io (ios 0)) (snd s) =
              (Inr f, w') \<and>
            current_best_tests (?tr ! 0) = Some t \<and> current_best_fitness (?tr ! 0) = Some f"
    by auto
  have 4: "fst s' = last ?tr \<and> length ?tr = Suc (length [1..<nat (mx + 1)])"
    if "evolve_tests L proj code spec mx ios s = (None, s')" for s'
    using evolve_tests_trace [OF that] by simp
  from 1 2 3 4 show ?thesis by blast
qed

theorem best_score_non_decreasing_witness:
  "(0::nat) \<le> 2 \<and>
   length (evolve_trace example_lib [''proj''] ''return a + b'' (example_spec None) 2 example_run
             (EvolutionOrchestrator, {}, 0)) = 3 \<and>
   (\<exists>a b. best_total_score (evolve_trace example_lib [''proj''] ''return a + b'' (example_spec None) 2
               example_run (EvolutionOrchestrator, {}, 0) ! 0) = Some a \<and>
          best_total_score (evolve_trace example_lib [''proj''] ''return a + b'' (example_spec None) 2
               example_run (EvolutionOrchestrator, {}, 0) ! 2) = Some b \<and> a \<le> b)"
proof -
  let ?tr = "evolve_trace example_lib [''proj''] ''return a + b'' (example_spec None) 2 example_run
             (EvolutionOrchestrator, {}, 0)"
  have len: "length ?tr = 3" by code_simp
  then have h: "2 < length ?tr" by simp
  from best_score_non_decreasing [of 0 2, OF _ h] len show ?thesis by simp
qed

text \<open>
  Claim C7, as amended. In a generation after the initial one, if the generator agent
  raises, the generation is recorded in the history with the marker \<open>ERROR_GENERATION\<close>
  as its suite, an empty fitness report and the status \<open>error\<close>, the best suite is kept,
  and the loop goes on with the next generation.
\<close>

theorem generator_failure_recorded:
  assumes "generated_tests (ios gen) = Inl e"
  shows "evolution_step L proj code spec gen (ios gen) (self, w) =
           (None,
            self\<lparr>evolution_history := evolution_history self @
                   [\<lparr> generation = gen, timestamp = now (ios gen),
                      tests_content_hash = str_hash L ''ERROR_GENERATION'',
                      tests_content_summary = ''ERROR_GENERATION'',
                      fitness_results = None, status = ''error'' \<rparr>]\<rparr>,
            w) \<and>
         evolution_loop L proj code spec ios (gen # gens) (self, w) =
           evolution_loop L proj code spec ios gens
             (self\<lparr>evolution_history := evolution_history self @
                   [\<lparr> generation = gen, timestamp = now (ios gen),
                      tests_content_hash = str_hash L ''ERROR_GENERATION'',
                      tests_content_summary = ''ERROR_GENERATION'',
                      fitness_results = None, status = ''error'' \<rparr>]\<rparr>,
              w)"
proof -
  have "evolution_step L proj code spec gen (ios gen) (self, w) =
           (None,
            self\<lparr>evolution_history := evolution_history self @
                   [\<lparr> generation = gen, timestamp = now (ios gen),
                      tests_content_hash = str_hash L ''ERROR_GENERATION'',
                      tests_content_summary = ''ERROR_GENERATION'',
                      fitness_results = None, status = ''error'' \<rparr>]\<rparr>,
            w)"
    using assms by (simp add: evolution_step_def save_generation_data_def)
  then show ?thesis by simp
qed

theorem generator_failure_recorded_witness:
  "generated_tests (example_run 1) = Inl (OtherException ''no answer'') \<and>
   evolution_step example_lib [''proj''] ''return a + b'' (example_spec None) 1 (example_run 1)
       (EvolutionOrchestrator, {}, 0) =
     (None,
      EvolutionOrchestrator\<lparr>evolution_history := evolution_history EvolutionOrchestrator @
         [\<lparr> generation = 1, timestamp = now (example_run 1),
            tests_content_hash = str_hash example_lib ''ERROR_GENERATION'',
            tests_content_summary = ''ERROR_GENERATION'',
            fitness_results = None, status = ''error'' \<rparr>]\<rparr>,
      {}, 0)"
proof -
  have g: "generated_tests (example_run 1) = Inl (OtherException ''no answer'')"
    by (simp add: example_run_def example_generation_def)
  from generator_failure_recorded [of example_run 1, OF g] g show ?thesis by blast
qed

text \<open>
  Claim C7 as stated fails for the evaluation: the loop has no handler around
  \<open>evaluate_tests\<close>. Here the coverage target of the specification is the string \<open>80\<close>; the
  suite of generation 0 fails on the correct function, so the target is not compared;
  the suite of generation 1 passes, the comparison raises \<open>TypeError\<close>, the exception
  leaves \<open>evolve_tests\<close>, and the history holds generation 0 only.
\<close>

theorem evaluation_failure_aborts_counterexample:
  "fst (evolve_tests example_lib [''proj''] ''return a + b'' (example_spec (Some (YStr ''80''))) 5
          example_raising_run (EvolutionOrchestrator, {}, 0)) =
     Some (TypeError ''< not supported between instances of float and str'') \<and>
   map (\<lambda>entry. (generation entry, status entry))
     (evolution_history
        (fst (snd (evolve_tests example_lib [''proj''] ''return a + b''
                     (example_spec (Some (YStr ''80''))) 5
                     example_raising_run (EvolutionOrchestrator, {}, 0))))) =
     [(0, ''initial_generation'')]"
  by code_simp

end
